theory Spec2Isabelle
  imports Complex_Main "HOL-Library.AList"
begin

section \<open>JavaScript values, exceptions and the runtime\<close>

text \<open>
  The three servers handle untyped values decoded from JSON (\<open>any\<close> in the TypeScript
  source). Strings are byte strings in UTF-8; an object is the list of its own
  properties in insertion order. A number is a finite value, one of the infinities
  (which \<open>JSON.parse\<close> gives for a literal out of range) or NaN; negative zero is
  not told apart from zero, both being falsy and printed alike.
\<close>

datatype number = Finite rat | Infinity | NegInfinity | NaN

datatype jsval =
    JUndefined
  | JNull
  | JBool bool
  | JNum number
  | JStr string
  | JArr "jsval list"
  | JObj "(string \<times> jsval) list"

datatype error_code = MethodNotFound | InvalidParams | InvalidRequest | InternalError

text \<open>
  An \<open>AxiosError\<close> carries \<open>error.response?.data\<close> (\<open>None\<close> when there is no
  response, as for a network failure) and \<open>error.message\<close>.
\<close>

datatype axios_error = AxiosError "jsval option" string

text \<open>
  What a handler can raise. \<open>McpError\<close> holds the error code and the message as the
  handler passes them to the constructor.
\<close>

datatype exn =
    McpError error_code string
  | TypeError
  | URIError
  | Axios axios_error

record http_request =
  url :: string
  params :: "(string \<times> jsval) list"
  headers :: "(string \<times> string) list"

text \<open>
  What the code takes from its surroundings: the API key of the environment, the HTTP
  transport behind \<open>axiosInstance.get\<close>, \<open>JSON.stringify(_, null, 2)\<close> and the
  conversion of a number to a string.
\<close>

record env =
  api_key :: string
  http :: "http_request \<Rightarrow> axios_error + jsval"
  stringify :: "jsval \<Rightarrow> string"
  number_to_string :: "number \<Rightarrow> string"

datatype content = TextContent string

datatype tool_result = ToolResult "content list" "bool option"

datatype resource_contents = ResourceContents string string string

datatype read_result = ReadResult "resource_contents list"

definition andThen :: "exn + 'a \<Rightarrow> ('a \<Rightarrow> exn + 'b) \<Rightarrow> exn + 'b" where
  "andThen m f = (case m of Inl e \<Rightarrow> Inl e | Inr x \<Rightarrow> f x)"

fun map_exn :: "('a \<Rightarrow> exn + 'b) \<Rightarrow> 'a list \<Rightarrow> exn + 'b list" where
  "map_exn f [] = Inr []"
| "map_exn f (x # xs) =
     (case f x of
        Inl e \<Rightarrow> Inl e
      | Inr y \<Rightarrow> (case map_exn f xs of Inl e \<Rightarrow> Inl e | Inr ys \<Rightarrow> Inr (y # ys)))"

fun typeof :: "jsval \<Rightarrow> string" where
  "typeof JUndefined = ''undefined''"
| "typeof JNull = ''object''"
| "typeof (JBool b) = ''boolean''"
| "typeof (JNum n) = ''number''"
| "typeof (JStr s) = ''string''"
| "typeof (JArr xs) = ''object''"
| "typeof (JObj kv) = ''object''"

fun truthy :: "jsval \<Rightarrow> bool" where
  "truthy JUndefined = False"
| "truthy JNull = False"
| "truthy (JBool b) = b"
| "truthy (JNum n) = (n \<noteq> Finite 0 \<and> n \<noteq> NaN)"
| "truthy (JStr s) = (s \<noteq> [])"
| "truthy (JArr xs) = True"
| "truthy (JObj kv) = True"

fun nullish :: "jsval \<Rightarrow> bool" where
  "nullish JUndefined = True"
| "nullish JNull = True"
| "nullish v = False"

text \<open>
  \<open>v.k\<close> for one of the property names the servers read (none of them is a property
  of a primitive's or an array's prototype): a TypeError on \<open>undefined\<close> and
  \<open>null\<close>, the own property of an object, \<open>undefined\<close> otherwise.
\<close>

fun get :: "jsval \<Rightarrow> string \<Rightarrow> exn + jsval" where
  "get JUndefined k = Inl TypeError"
| "get JNull k = Inl TypeError"
| "get (JObj kv) k = Inr (case map_of kv k of None \<Rightarrow> JUndefined | Some v \<Rightarrow> v)"
| "get v k = Inr JUndefined"

text \<open>\<open>v?.k\<close>\<close>

definition opt_get :: "jsval \<Rightarrow> string \<Rightarrow> jsval" where
  "opt_get v k = (if nullish v then JUndefined
                  else (case get v k of Inl e \<Rightarrow> JUndefined | Inr x \<Rightarrow> x))"

text \<open>
  \<open>v.k = x\<close> in strict mode. The handlers assign only to values that were read as
  objects; the assignment keeps the position of an existing key and appends a new one.
\<close>

fun set_field :: "jsval \<Rightarrow> string \<Rightarrow> jsval \<Rightarrow> exn + jsval" where
  "set_field (JObj kv) k x = Inr (JObj (AList.update k x kv))"
| "set_field v k x = Inl TypeError"

text \<open>\<open>a || b\<close> and \<open>a ?? b\<close>\<close>

definition or_else :: "jsval \<Rightarrow> jsval \<Rightarrow> jsval" where
  "or_else a b = (if truthy a then a else b)"

definition nullish_else :: "jsval \<Rightarrow> jsval \<Rightarrow> jsval" where
  "nullish_else a b = (if nullish a then b else a)"

fun isArray :: "jsval \<Rightarrow> bool" where
  "isArray (JArr xs) = True"
| "isArray v = False"

fun elems :: "jsval \<Rightarrow> jsval list" where
  "elems (JArr xs) = xs"
| "elems v = []"

fun join :: "string \<Rightarrow> string list \<Rightarrow> string" where
  "join sep [] = []"
| "join sep [s] = s"
| "join sep (s # t # ts) = s @ sep @ join sep (t # ts)"

text \<open>The string conversion of a template literal and of \<open>+\<close> with a string.\<close>

fun to_string :: "(number \<Rightarrow> string) \<Rightarrow> jsval \<Rightarrow> string" where
  "to_string ns JUndefined = ''undefined''"
| "to_string ns JNull = ''null''"
| "to_string ns (JBool b) = (if b then ''true'' else ''false'')"
| "to_string ns (JNum n) = ns n"
| "to_string ns (JStr s) = s"
| "to_string ns (JObj kv) = ''[object Object]''"
| "to_string ns (JArr xs) =
     join '','' (map (\<lambda>x. if nullish x then [] else to_string ns x) xs)"

section \<open>Argument validators\<close>

text \<open>\<open>a && b\<close> on conditions that may raise: \<open>b\<close> is evaluated only when \<open>a\<close> is true.\<close>

definition andalso :: "exn + bool \<Rightarrow> exn + bool \<Rightarrow> exn + bool" where
  "andalso a b = (case a of Inl e \<Rightarrow> Inl e | Inr x \<Rightarrow> (if x then b else Inr False))"

definition orelse :: "exn + bool \<Rightarrow> exn + bool \<Rightarrow> exn + bool" where
  "orelse a b = (case a of Inl e \<Rightarrow> Inl e | Inr x \<Rightarrow> (if x then Inr True else b))"

text \<open>\<open>typeof args.k === 'string'\<close>\<close>

definition is_string_field :: "jsval \<Rightarrow> string \<Rightarrow> exn + bool" where
  "is_string_field args k = andThen (get args k) (\<lambda>v. Inr (typeof v = ''string''))"

text \<open>\<open>args.k === undefined\<close>\<close>

definition is_undefined_field :: "jsval \<Rightarrow> string \<Rightarrow> exn + bool" where
  "is_undefined_field args k = andThen (get args k) (\<lambda>v. Inr (v = JUndefined))"

definition isValidDirectionsArgs :: "jsval \<Rightarrow> exn + bool" where
  "isValidDirectionsArgs args =
     andalso (Inr (typeof args = ''object''))
    (andalso (Inr (args \<noteq> JNull))
    (andalso (is_string_field args ''origin'')
    (andalso (is_string_field args ''destination'')
             (orelse (is_undefined_field args ''mode'') (is_string_field args ''mode'')))))"

definition isValidRouteTransitArgs :: "jsval \<Rightarrow> exn + bool" where
  "isValidRouteTransitArgs args =
     andalso (Inr (typeof args = ''object''))
    (andalso (Inr (args \<noteq> JNull))
    (andalso (is_string_field args ''start'')
    (andalso (is_string_field args ''goal'')
    (andalso (orelse (is_undefined_field args ''start_time'') (is_string_field args ''start_time''))
    (andalso (orelse (is_undefined_field args ''term'') (is_string_field args ''term''))
    (andalso (orelse (is_undefined_field args ''limit'') (is_string_field args ''limit''))
    (andalso (orelse (is_undefined_field args ''datum'') (is_string_field args ''datum''))
             (orelse (is_undefined_field args ''coord_unit'')
                     (is_string_field args ''coord_unit'')))))))))"

section \<open>Timezone suffixing (transit server)\<close>

text \<open>\<open>timeStr.includes('+') ? timeStr : timeStr + '+09:00'\<close>, on the declared type.\<close>

definition normalizeTime :: "string \<Rightarrow> string" where
  "normalizeTime timeStr = (if CHR ''+'' \<in> set timeStr then timeStr else timeStr @ ''+09:00'')"

definition addTimezone :: "string \<Rightarrow> string" where
  "addTimezone timeStr = (if CHR ''+'' \<in> set timeStr then timeStr else timeStr @ ''+09:00'')"

text \<open>
  The same bodies applied to a value of type \<open>any\<close>: an array has an \<open>includes\<close>
  of its own (is the string \<open>'+'\<close> an element?) and is converted to a string by
  \<open>+\<close>; every other value has no callable \<open>includes\<close>.
\<close>

fun call_normalizeTime :: "env \<Rightarrow> jsval \<Rightarrow> exn + jsval" where
  "call_normalizeTime env (JStr s) = Inr (JStr (normalizeTime s))"
| "call_normalizeTime env (JArr xs) =
     Inr (if JStr ''+'' \<in> set xs then JArr xs
          else JStr (to_string (number_to_string env) (JArr xs) @ ''+09:00''))"
| "call_normalizeTime env v = Inl TypeError"

fun call_addTimezone :: "env \<Rightarrow> jsval \<Rightarrow> exn + jsval" where
  "call_addTimezone env (JStr s) = Inr (JStr (addTimezone s))"
| "call_addTimezone env (JArr xs) =
     Inr (if JStr ''+'' \<in> set xs then JArr xs
          else JStr (to_string (number_to_string env) (JArr xs) @ ''+09:00''))"
| "call_addTimezone env v = Inl TypeError"

section \<open>Issuing the HTTP request\<close>

text \<open>
  A handler returns its outcome (an exception or a result) together with the list of
  HTTP requests it has issued. \<open>attempt\<close> is the \<open>await axiosInstance.get(...)\<close>
  followed by the rest of the handler: when the parameters cannot be evaluated nothing
  is sent; a failed request raises the \<open>AxiosError\<close>.
\<close>

definition attempt ::
  "env \<Rightarrow> exn + http_request \<Rightarrow> (jsval \<Rightarrow> exn + 'a) \<Rightarrow> (exn + 'a) \<times> http_request list" where
  "attempt env rq k =
     (case rq of
        Inl e \<Rightarrow> (Inl e, [])
      | Inr r \<Rightarrow>
          (case http env r of
             Inl err \<Rightarrow> (Inl (Axios err), [r])
           | Inr d \<Rightarrow> (k d, [r])))"

text \<open>\<open>error.response?.data?.k\<close>\<close>

fun response_data_field :: "axios_error \<Rightarrow> string \<Rightarrow> jsval" where
  "response_data_field (AxiosError None m) k = JUndefined"
| "response_data_field (AxiosError (Some d) m) k = opt_get d k"

fun message :: "axios_error \<Rightarrow> string" where
  "message (AxiosError r m) = m"

text \<open>\<open>error.response?.data?.error_message || error.message\<close>, inside a template literal.\<close>

definition google_error_text :: "env \<Rightarrow> axios_error \<Rightarrow> string" where
  "google_error_text env err =
     to_string (number_to_string env)
       (or_else (response_data_field err ''error_message'') (JStr (message err)))"

text \<open>\<open>error.response?.data?.message ?? error.message\<close>, inside a template literal.\<close>

definition navitime_error_text :: "env \<Rightarrow> axios_error \<Rightarrow> string" where
  "navitime_error_text env err =
     to_string (number_to_string env)
       (nullish_else (response_data_field err ''message'') (JStr (message err)))"

definition text_result :: "env \<Rightarrow> jsval \<Rightarrow> tool_result" where
  "text_result env d = ToolResult [TextContent (stringify env d)] None"

definition error_result :: "string \<Rightarrow> tool_result" where
  "error_result msg = ToolResult [TextContent msg] (Some True)"

section \<open>Directions server\<close>

definition directions_url :: string where
  "directions_url = ''https://maps.googleapis.com/maps/api/directions/json''"

text \<open>
  The pattern \<open>/^directions:\/\/(.+)\/(.+)$/\<close>. A dot matches every character but a
  line terminator (LF, CR, U+2028, U+2029). The first group is greedy: the matcher tries
  the longest first group and backtracks to shorter ones until a \<open>/\<close> with a
  non-empty rest follows.
\<close>

fun has_line_terminator :: "string \<Rightarrow> bool" where
  "has_line_terminator [] = False"
| "has_line_terminator (c # cs) =
     (c = CHR 0x0A \<or> c = CHR 0x0D
      \<or> (c = CHR 0xE2 \<and> (take 2 cs = [CHR 0x80, CHR 0xA8] \<or> take 2 cs = [CHR 0x80, CHR 0xA9]))
      \<or> has_line_terminator cs)"

fun backtrack :: "nat \<Rightarrow> string \<Rightarrow> (string \<times> string) option" where
  "backtrack 0 s = None"
| "backtrack (Suc n) s =
     (if take 1 (drop (Suc n) s) = ''/'' \<and> drop (Suc (Suc n)) s \<noteq> []
      then Some (take (Suc n) s, drop (Suc (Suc n)) s)
      else backtrack n s)"

fun strip_prefix :: "string \<Rightarrow> string \<Rightarrow> string option" where
  "strip_prefix [] s = Some s"
| "strip_prefix (p # ps) [] = None"
| "strip_prefix (p # ps) (c # cs) = (if p = c then strip_prefix ps cs else None)"

definition match_directions_uri :: "string \<Rightarrow> (string \<times> string) option" where
  "match_directions_uri uri =
     (case strip_prefix ''directions://'' uri of
        None \<Rightarrow> None
      | Some rest \<Rightarrow> if has_line_terminator rest then None else backtrack (length rest) rest)"

text \<open>
  The built-in \<open>decodeURIComponent\<close>: a \<open>%\<close> must be followed by two hexadecimal
  digits; an escaped byte below 0x80 is the character itself; an escaped byte from 0x80
  on must start a well-formed UTF-8 sequence whose continuation bytes are escapes too.
  Everything else is a URIError. The first argument holds the ranges of the
  continuation bytes still expected.
\<close>

definition hex_digit :: "char \<Rightarrow> nat option" where
  "hex_digit c =
     (let n = (of_char c :: nat) in
      if 48 \<le> n \<and> n \<le> 57 then Some (n - 48)
      else if 65 \<le> n \<and> n \<le> 70 then Some (n - 55)
      else if 97 \<le> n \<and> n \<le> 102 then Some (n - 87)
      else None)"

definition hex_byte :: "char \<Rightarrow> char \<Rightarrow> nat option" where
  "hex_byte h l =
     (case hex_digit h of
        None \<Rightarrow> None
      | Some a \<Rightarrow> (case hex_digit l of None \<Rightarrow> None | Some b \<Rightarrow> Some (16 * a + b)))"

definition utf8_lead :: "nat \<Rightarrow> (nat \<times> nat) list option" where
  "utf8_lead b =
     (if b < 0x80 then Some []
      else if 0xC2 \<le> b \<and> b \<le> 0xDF then Some [(0x80, 0xBF)]
      else if b = 0xE0 then Some [(0xA0, 0xBF), (0x80, 0xBF)]
      else if b = 0xED then Some [(0x80, 0x9F), (0x80, 0xBF)]
      else if 0xE1 \<le> b \<and> b \<le> 0xEF then Some [(0x80, 0xBF), (0x80, 0xBF)]
      else if b = 0xF0 then Some [(0x90, 0xBF), (0x80, 0xBF), (0x80, 0xBF)]
      else if 0xF1 \<le> b \<and> b \<le> 0xF3 then Some [(0x80, 0xBF), (0x80, 0xBF), (0x80, 0xBF)]
      else if b = 0xF4 then Some [(0x80, 0x8F), (0x80, 0xBF), (0x80, 0xBF)]
      else None)"

definition emit :: "char \<Rightarrow> exn + string \<Rightarrow> exn + string" where
  "emit c r = (case r of Inl e \<Rightarrow> Inl e | Inr s \<Rightarrow> Inr (c # s))"

fun decode :: "(nat \<times> nat) list \<Rightarrow> string \<Rightarrow> exn + string" where
  "decode [] [] = Inr []"
| "decode (r # rs) [] = Inl URIError"
| "decode pending (c # cs) =
     (if c = CHR ''%'' then
        (case cs of
           h # l # rest \<Rightarrow>
             (case hex_byte h l of
                None \<Rightarrow> Inl URIError
              | Some b \<Rightarrow>
                  (case pending of
                     [] \<Rightarrow>
                       (case utf8_lead b of
                          None \<Rightarrow> Inl URIError
                        | Some rs \<Rightarrow> emit (char_of b) (decode rs rest))
                   | (lo, hi) # rs \<Rightarrow>
                       (if lo \<le> b \<and> b \<le> hi then emit (char_of b) (decode rs rest)
                        else Inl URIError)))
         | _ \<Rightarrow> Inl URIError)
      else (case pending of [] \<Rightarrow> emit c (decode [] cs) | _ \<Rightarrow> Inl URIError))"

definition decodeURIComponent :: "string \<Rightarrow> exn + string" where
  "decodeURIComponent s = decode [] s"

text \<open>The catch of the read handler: an \<open>AxiosError\<close> becomes an internal error.\<close>

fun rethrow_internal :: "env \<Rightarrow> (exn + 'a) \<times> http_request list \<Rightarrow> (exn + 'a) \<times> http_request list" where
  "rethrow_internal env (Inl (Axios err), sent) =
     (Inl (McpError InternalError (''Google Maps API error: '' @ google_error_text env err)), sent)"
| "rethrow_internal env (r, sent) = (r, sent)"

definition readResource :: "env \<Rightarrow> string \<Rightarrow> (exn + read_result) \<times> http_request list" where
  "readResource env uri =
     (case match_directions_uri uri of
        None \<Rightarrow> (Inl (McpError InvalidRequest (''Invalid URI: '' @ uri)), [])
      | Some (g1, g2) \<Rightarrow>
          (case decodeURIComponent g1 of
             Inl e \<Rightarrow> (Inl e, [])
           | Inr origin \<Rightarrow>
               (case decodeURIComponent g2 of
                  Inl e \<Rightarrow> (Inl e, [])
                | Inr destination \<Rightarrow>
                    rethrow_internal env
                      (attempt env
                         (Inr \<lparr>url = directions_url,
                               params = [(''origin'', JStr origin),
                                         (''destination'', JStr destination),
                                         (''key'', JStr (api_key env))],
                               headers = []\<rparr>)
                         (\<lambda>d. Inr (ReadResult
                                [ResourceContents uri ''application/json'' (stringify env d)]))))))"

text \<open>The catch of a tool handler: an \<open>AxiosError\<close> becomes an error-flagged result.\<close>

fun catch_result ::
  "(axios_error \<Rightarrow> string) \<Rightarrow> (exn + tool_result) \<times> http_request list
     \<Rightarrow> (exn + tool_result) \<times> http_request list" where
  "catch_result msg (Inl (Axios err), sent) = (Inr (error_result (msg err)), sent)"
| "catch_result msg (r, sent) = (r, sent)"

definition directions_request :: "env \<Rightarrow> jsval \<Rightarrow> exn + http_request" where
  "directions_request env args =
     andThen (get args ''origin'') (\<lambda>origin.
     andThen (get args ''destination'') (\<lambda>destination.
     andThen (get args ''mode'') (\<lambda>m.
       Inr \<lparr>url = directions_url,
            params = [(''origin'', origin),
                      (''destination'', destination),
                      (''mode'', or_else m (JStr ''driving'')),
                      (''key'', JStr (api_key env))],
            headers = []\<rparr>)))"

definition callTool_directions ::
  "env \<Rightarrow> string \<Rightarrow> jsval \<Rightarrow> (exn + tool_result) \<times> http_request list" where
  "callTool_directions env name args =
     (if name \<noteq> ''get_directions'' then
        (Inl (McpError MethodNotFound (''Unknown tool: '' @ name)), [])
      else
        (case isValidDirectionsArgs args of
           Inl e \<Rightarrow> (Inl e, [])
         | Inr ok \<Rightarrow>
             if \<not> ok then (Inl (McpError InvalidParams ''Invalid directions arguments''), [])
             else
               (case directions_request env args of
                  Inl e \<Rightarrow> (Inl e, [])
                | Inr rq \<Rightarrow>
                    catch_result (\<lambda>err. ''Google Maps API error: '' @ google_error_text env err)
                      (attempt env (Inr rq) (\<lambda>d. Inr (text_result env d))))))"

section \<open>Transit server\<close>

definition transit_base :: string where
  "transit_base = ''https://navitime-route-totalnavi.p.rapidapi.com''"

definition default_start_time :: string where
  "default_start_time = ''2024-02-11T12:00:00+09:00''"

text \<open>
  The translated start time:
  \<open>args.start_time ? normalizeTime(args.start_time) : '2024-02-11T12:00:00+09:00'\<close>.
\<close>

definition start_time_param :: "env \<Rightarrow> jsval \<Rightarrow> exn + jsval" where
  "start_time_param env args =
     andThen (get args ''start_time'') (\<lambda>st.
       if truthy st then call_normalizeTime env st else Inr (JStr default_start_time))"

definition transit_request :: "env \<Rightarrow> jsval \<Rightarrow> exn + http_request" where
  "transit_request env args =
     andThen (start_time_param env args) (\<lambda>startTime.
     andThen (get args ''start'') (\<lambda>start.
     andThen (get args ''goal'') (\<lambda>goal.
     andThen (get args ''term'') (\<lambda>term.
     andThen (get args ''limit'') (\<lambda>limit.
     andThen (get args ''datum'') (\<lambda>datum.
     andThen (get args ''coord_unit'') (\<lambda>coord_unit.
       Inr \<lparr>url = transit_base @ ''/route_transit'',
            params = [(''start'', start),
                      (''goal'', goal),
                      (''start_time'', startTime),
                      (''term'', or_else term (JStr ''60'')),
                      (''limit'', or_else limit (JStr ''3'')),
                      (''datum'', or_else datum (JStr ''wgs84'')),
                      (''coord_unit'', or_else coord_unit (JStr ''degree''))],
            headers = [(''x-rapidapi-key'', api_key env),
                       (''x-rapidapi-host'', ''navitime-route-totalnavi.p.rapidapi.com'')]\<rparr>)))))))"

subsection \<open>Response normalizer\<close>

text \<open>
  The body is a tree decoded from JSON, so that the in-place assignments of the source
  are updates of the nested value.
\<close>

definition normalize_move :: "env \<Rightarrow> jsval \<Rightarrow> exn + jsval" where
  "normalize_move env move =
     andThen (get move ''from_time'') (\<lambda>ft.
     andThen (call_addTimezone env ft) (\<lambda>ft'.
     andThen (set_field move ''from_time'' ft') (\<lambda>move1.
     andThen (get move1 ''to_time'') (\<lambda>tt.
     andThen (call_addTimezone env tt) (\<lambda>tt'.
       set_field move1 ''to_time'' tt')))))"

definition normalize_section :: "env \<Rightarrow> jsval \<Rightarrow> exn + jsval" where
  "normalize_section env section =
     andThen (get section ''type'') (\<lambda>t.
       if t = JStr ''move'' then
         andThen (get section ''from_time'') (\<lambda>ft.
         andThen (if truthy ft
                  then andThen (call_addTimezone env ft) (set_field section ''from_time'')
                  else Inr section) (\<lambda>section1.
         andThen (get section1 ''to_time'') (\<lambda>tt.
           if truthy tt
           then andThen (call_addTimezone env tt) (set_field section1 ''to_time'')
           else Inr section1)))
       else Inr section)"

definition normalize_item :: "env \<Rightarrow> jsval \<Rightarrow> exn + jsval" where
  "normalize_item env item =
     andThen (get item ''summary'') (\<lambda>summary.
     andThen (if truthy summary then
                andThen (get summary ''move'') (\<lambda>move.
                  if truthy move then
                    andThen (normalize_move env move) (\<lambda>move'.
                    andThen (set_field summary ''move'' move') (\<lambda>summary'.
                      set_field item ''summary'' summary'))
                  else Inr item)
              else Inr item) (\<lambda>item1.
     andThen (get item1 ''sections'') (\<lambda>sections.
       if truthy sections \<and> isArray sections then
         andThen (map_exn (normalize_section env) (elems sections)) (\<lambda>sections'.
           set_field item1 ''sections'' (JArr sections'))
       else Inr item1)))"

definition normalize :: "env \<Rightarrow> jsval \<Rightarrow> exn + jsval" where
  "normalize env data =
     andThen (get data ''items'') (\<lambda>items.
       if truthy items \<and> isArray items then
         andThen (map_exn (normalize_item env) (elems items)) (\<lambda>items'.
           set_field data ''items'' (JArr items'))
       else Inr data)"

definition callTool_transit ::
  "env \<Rightarrow> string \<Rightarrow> jsval \<Rightarrow> (exn + tool_result) \<times> http_request list" where
  "callTool_transit env name args =
     (if name \<noteq> ''route_transit'' then
        (Inl (McpError MethodNotFound (''Unknown tool: '' @ name)), [])
      else
        (case isValidRouteTransitArgs args of
           Inl e \<Rightarrow> (Inl e, [])
         | Inr ok \<Rightarrow>
             if \<not> ok then (Inl (McpError InvalidParams ''Invalid route_transit arguments''), [])
             else
               catch_result (\<lambda>err. ''Navitime API error: '' @ navitime_error_text env err)
                 (attempt env (transit_request env args)
                    (\<lambda>d. andThen (normalize env d) (\<lambda>d'. Inr (text_result env d'))))))"

section \<open>Places server\<close>

definition places_base :: string where
  "places_base = ''https://maps.googleapis.com/maps/api/place''"

definition search_fields :: string where
  "search_fields = ''formatted_address,name,rating,opening_hours,geometry,place_id''"

definition details_fields :: string where
  "details_fields =
     ''name,rating,formatted_phone_number,formatted_address,opening_hours,website,reviews,price_level,photos''"

definition search_places_request :: "env \<Rightarrow> jsval \<Rightarrow> exn + http_request" where
  "search_places_request env args =
     andThen (get args ''query'') (\<lambda>query.
     andThen (get args ''language'') (\<lambda>language.
       Inr \<lparr>url = places_base @ ''/findplacefromtext/json'',
            params = [(''key'', JStr (api_key env)),
                      (''input'', query),
                      (''inputtype'', JStr ''textquery''),
                      (''language'', or_else language (JStr ''ja'')),
                      (''fields'', JStr search_fields)],
            headers = []\<rparr>))"

definition place_details_request :: "env \<Rightarrow> jsval \<Rightarrow> exn + http_request" where
  "place_details_request env args =
     andThen (get args ''placeId'') (\<lambda>placeId.
     andThen (get args ''language'') (\<lambda>language.
       Inr \<lparr>url = places_base @ ''/details/json'',
            params = [(''key'', JStr (api_key env)),
                      (''place_id'', placeId),
                      (''language'', or_else language (JStr ''ja'')),
                      (''fields'', JStr details_fields)],
            headers = []\<rparr>))"

definition nearby_search_request :: "env \<Rightarrow> jsval \<Rightarrow> exn + http_request" where
  "nearby_search_request env args =
     andThen (get args ''location'') (\<lambda>location.
     andThen (get location ''lat'') (\<lambda>lat.
     andThen (get location ''lng'') (\<lambda>lng.
     andThen (get args ''radius'') (\<lambda>radius.
     andThen (get args ''type'') (\<lambda>type.
     andThen (get args ''language'') (\<lambda>language.
       Inr \<lparr>url = places_base @ ''/nearbysearch/json'',
            params = [(''key'', JStr (api_key env)),
                      (''location'', JStr (to_string (number_to_string env) lat @ '','' @
                                           to_string (number_to_string env) lng)),
                      (''radius'', or_else radius (JNum (Finite 1000))),
                      (''type'', type),
                      (''language'', or_else language (JStr ''ja''))],
            headers = []\<rparr>))))))"

definition handleSearchPlaces :: "env \<Rightarrow> jsval \<Rightarrow> (exn + tool_result) \<times> http_request list" where
  "handleSearchPlaces env args =
     attempt env (search_places_request env args) (\<lambda>d. Inr (text_result env d))"

definition handleGetPlaceDetails :: "env \<Rightarrow> jsval \<Rightarrow> (exn + tool_result) \<times> http_request list" where
  "handleGetPlaceDetails env args =
     attempt env (place_details_request env args) (\<lambda>d. Inr (text_result env d))"

definition handleNearbySearch :: "env \<Rightarrow> jsval \<Rightarrow> (exn + tool_result) \<times> http_request list" where
  "handleNearbySearch env args =
     attempt env (nearby_search_request env args) (\<lambda>d. Inr (text_result env d))"

definition callTool_places ::
  "env \<Rightarrow> string \<Rightarrow> jsval \<Rightarrow> (exn + tool_result) \<times> http_request list" where
  "callTool_places env name args =
     catch_result (\<lambda>err. ''Google Places API error: '' @ google_error_text env err)
       (if name = ''search_places'' then handleSearchPlaces env args
        else if name = ''get_place_details'' then handleGetPlaceDetails env args
        else if name = ''nearby_search'' then handleNearbySearch env args
        else (Inl (McpError MethodNotFound (''Unknown tool: '' @ name)), []))"

text \<open>
  An environment for evaluating the handlers at concrete inputs, with a given HTTP
  transport and simple stand-ins for the two conversions.
\<close>

definition sample_env :: "(http_request \<Rightarrow> axios_error + jsval) \<Rightarrow> env" where
  "sample_env h =
     \<lparr>api_key = ''KEY'', http = h, stringify = to_string (\<lambda>n. ''0''),
      number_to_string = (\<lambda>n. ''0'')\<rparr>"

section \<open>Notions used to state the properties\<close>

text \<open>The tool catalogs listed by the three servers.\<close>

definition directions_tools :: "string list" where
  "directions_tools = [''get_directions'']"

definition transit_tools :: "string list" where
  "transit_tools = [''route_transit'']"

definition places_tools :: "string list" where
  "places_tools = [''search_places'', ''get_place_details'', ''nearby_search'']"

text \<open>
  The shape contract in the words of the specification: a non-null object whose
  required fields hold strings and whose optional fields are absent (or
  \<open>undefined\<close>) or hold strings.
\<close>

definition string_valued :: "(string \<times> jsval) list \<Rightarrow> string \<Rightarrow> bool" where
  "string_valued kv k = (case map_of kv k of Some (JStr s) \<Rightarrow> True | _ \<Rightarrow> False)"

definition absent_or_string :: "(string \<times> jsval) list \<Rightarrow> string \<Rightarrow> bool" where
  "absent_or_string kv k =
     (case map_of kv k of
        None \<Rightarrow> True
      | Some JUndefined \<Rightarrow> True
      | Some (JStr s) \<Rightarrow> True
      | _ \<Rightarrow> False)"

definition has_shape :: "string list \<Rightarrow> string list \<Rightarrow> jsval \<Rightarrow> bool" where
  "has_shape required optional args =
     (case args of
        JObj kv \<Rightarrow> list_all (string_valued kv) required \<and> list_all (absent_or_string kv) optional
      | _ \<Rightarrow> False)"

text \<open>The value of one query parameter in each request a handler has issued.\<close>

definition sent_param :: "'a \<times> http_request list \<Rightarrow> string \<Rightarrow> jsval option list" where
  "sent_param r k = map (\<lambda>rq. map_of (params rq) k) (snd r)"

definition args_empty_start_time :: jsval where
  "args_empty_start_time =
     JObj [(''start'', JStr ''35.6,139.7''), (''goal'', JStr ''35.7,139.8''),
           (''start_time'', JStr [])]"

definition transit_defaults :: "(string \<times> string) list" where
  "transit_defaults =
     [(''start_time'', ''2024-02-11T12:00:00+09:00''), (''term'', ''60''), (''limit'', ''3''),
      (''datum'', ''wgs84''), (''coord_unit'', ''degree'')]"

text \<open>The value read from a field of an object.\<close>

definition field :: "(string \<times> jsval) list \<Rightarrow> string \<Rightarrow> jsval" where
  "field kv k = (case map_of kv k of None \<Rightarrow> JUndefined | Some v \<Rightarrow> v)"

definition translated_start_time :: "jsval \<Rightarrow> string" where
  "translated_start_time v =
     (case v of JStr s \<Rightarrow> if s = [] then default_start_time else normalizeTime s
      | _ \<Rightarrow> default_start_time)"

text \<open>
  The shape contract of the places tools in the words of the specification: a string
  \<open>query\<close>, a string \<open>placeId\<close>, a \<open>location\<close> object with numeric \<open>lat\<close> and
  \<open>lng\<close>.
\<close>

definition places_shape :: "string \<Rightarrow> jsval \<Rightarrow> bool" where
  "places_shape name args =
     (case args of
        JObj kv \<Rightarrow>
          if name = ''search_places'' then typeof (field kv ''query'') = ''string''
          else if name = ''get_place_details'' then typeof (field kv ''placeId'') = ''string''
          else (case field kv ''location'' of
                  JObj loc \<Rightarrow> typeof (field loc ''lat'') = ''number''
                             \<and> typeof (field loc ''lng'') = ''number''
                | _ \<Rightarrow> False)
      | _ \<Rightarrow> False)"

text \<open>The requests of the places tools, with every field as it is found.\<close>

definition search_places_sent :: "env \<Rightarrow> jsval \<Rightarrow> http_request" where
  "search_places_sent env args =
     \<lparr>url = places_base @ ''/findplacefromtext/json'',
      params = [(''key'', JStr (api_key env)),
                (''input'', opt_get args ''query''),
                (''inputtype'', JStr ''textquery''),
                (''language'', or_else (opt_get args ''language'') (JStr ''ja'')),
                (''fields'', JStr search_fields)],
      headers = []\<rparr>"

definition place_details_sent :: "env \<Rightarrow> jsval \<Rightarrow> http_request" where
  "place_details_sent env args =
     \<lparr>url = places_base @ ''/details/json'',
      params = [(''key'', JStr (api_key env)),
                (''place_id'', opt_get args ''placeId''),
                (''language'', or_else (opt_get args ''language'') (JStr ''ja'')),
                (''fields'', JStr details_fields)],
      headers = []\<rparr>"

definition nearby_search_sent :: "env \<Rightarrow> jsval \<Rightarrow> http_request" where
  "nearby_search_sent env args =
     \<lparr>url = places_base @ ''/nearbysearch/json'',
      params = [(''key'', JStr (api_key env)),
                (''location'',
                   JStr (to_string (number_to_string env) (opt_get (opt_get args ''location'') ''lat'')
                         @ '','' @
                         to_string (number_to_string env) (opt_get (opt_get args ''location'') ''lng''))),
                (''radius'', or_else (opt_get args ''radius'') (JNum (Finite 1000))),
                (''type'', opt_get args ''type''),
                (''language'', or_else (opt_get args ''language'') (JStr ''ja''))],
      headers = []\<rparr>"

definition sample_args :: "(string \<times> jsval) list" where
  "sample_args =
     [(''start'', JStr ''35.6,139.7''), (''goal'', JStr ''35.7,139.8''), (''term'', JStr []),
      (''origin'', JStr ''Tokyo''), (''destination'', JStr ''Osaka''), (''mode'', JStr []),
      (''language'', JStr []), (''radius'', JNum (Finite 0)),
      (''location'', JObj [(''lat'', JNum (Finite 1)), (''lng'', JNum (Finite 2))])]"

text \<open>The upstream answer 403 with the body \<open>{error_message: "key invalid"}\<close>.\<close>

definition key_invalid :: axios_error where
  "key_invalid =
     AxiosError (Some (JObj [(''error_message'', JStr ''key invalid'')]))
       ''Request failed with status code 403''"

text \<open>
  The normalized body in the words of the specification. \<open>on_field k f\<close> changes the
  value of the field \<open>k\<close> of an object by \<open>f\<close> and nothing else: the keys, their order
  and every other value stay, a field that is absent stays absent, and a value that is
  not an object is left as it is. \<open>on_elems f\<close> changes every element of an array.
\<close>

definition map_entry ::
  "string \<Rightarrow> (jsval \<Rightarrow> jsval) \<Rightarrow> (string \<times> jsval) list \<Rightarrow> (string \<times> jsval) list" where
  "map_entry k f kv = map (\<lambda>(k', x). if k' = k then (k', f x) else (k', x)) kv"

fun on_field :: "string \<Rightarrow> (jsval \<Rightarrow> jsval) \<Rightarrow> jsval \<Rightarrow> jsval" where
  "on_field k f (JObj kv) = JObj (map_entry k f kv)"
| "on_field k f v = v"

fun on_elems :: "(jsval \<Rightarrow> jsval) \<Rightarrow> jsval \<Rightarrow> jsval" where
  "on_elems f (JArr xs) = JArr (map f xs)"
| "on_elems f v = v"

text \<open>Appending \<open>+09:00\<close> to a string value unless it contains \<open>+\<close>.\<close>

fun suffixed :: "jsval \<Rightarrow> jsval" where
  "suffixed (JStr s) = JStr (addTimezone s)"
| "suffixed v = v"

text \<open>The same for a string value that is not empty.\<close>

fun suffixed_nonempty :: "jsval \<Rightarrow> jsval" where
  "suffixed_nonempty (JStr s) = (if s = [] then JStr s else JStr (addTimezone s))"
| "suffixed_nonempty v = v"

definition retimed_move :: "jsval \<Rightarrow> jsval" where
  "retimed_move m = on_field ''to_time'' suffixed (on_field ''from_time'' suffixed m)"

definition retimed_section :: "jsval \<Rightarrow> jsval" where
  "retimed_section s =
     (if opt_get s ''type'' = JStr ''move''
      then on_field ''to_time'' suffixed_nonempty (on_field ''from_time'' suffixed_nonempty s)
      else s)"

definition retimed_item :: "jsval \<Rightarrow> jsval" where
  "retimed_item item =
     on_field ''sections'' (on_elems retimed_section)
       (on_field ''summary'' (on_field ''move'' retimed_move) item)"

definition retimed_body :: "jsval \<Rightarrow> jsval" where
  "retimed_body body = on_field ''items'' (on_elems retimed_item) body"

text \<open>A value decoded from JSON has no object with a repeated key.\<close>

fun distinct_keys :: "jsval \<Rightarrow> bool" where
  "distinct_keys (JArr xs) = (\<forall>x \<in> set xs. distinct_keys x)"
| "distinct_keys (JObj kv) = (distinct (map fst kv) \<and> (\<forall>p \<in> set kv. distinct_keys (snd p)))"
| "distinct_keys v = True"

text \<open>
  The bodies on which the normalizer is specified: the body, every item and every
  section are neither null nor undefined, a
  truthy \<open>summary.move\<close> has string \<open>from_time\<close> and \<open>to_time\<close>, and a
  \<open>from_time\<close> or \<open>to_time\<close> of a section of type \<open>move\<close> is absent, falsy or a
  string.
\<close>

fun is_string :: "jsval \<Rightarrow> bool" where
  "is_string (JStr s) = True"
| "is_string v = False"

definition move_ok :: "jsval \<Rightarrow> bool" where
  "move_ok m =
     (if truthy m then is_string (opt_get m ''from_time'') \<and> is_string (opt_get m ''to_time'')
      else True)"

definition optional_time :: "jsval \<Rightarrow> bool" where
  "optional_time v = (if truthy v then is_string v else True)"

definition section_ok :: "jsval \<Rightarrow> bool" where
  "section_ok s =
     (\<not> nullish s \<and>
      (if opt_get s ''type'' = JStr ''move''
       then optional_time (opt_get s ''from_time'') \<and> optional_time (opt_get s ''to_time'')
       else True))"

definition item_ok :: "jsval \<Rightarrow> bool" where
  "item_ok item =
     (\<not> nullish item \<and> move_ok (opt_get (opt_get item ''summary'') ''move'')
      \<and> list_all section_ok (elems (opt_get item ''sections'')))"

definition body_ok :: "jsval \<Rightarrow> bool" where
  "body_ok body = (\<not> nullish body \<and> list_all item_ok (elems (opt_get body ''items'')))"

text \<open>Bodies for evaluating the normalizer.\<close>

definition sample_body :: jsval where
  "sample_body =
     JObj [(''items'',
            JArr [JObj [(''summary'',
                         JObj [(''no'', JStr ''1''),
                               (''move'',
                                JObj [(''from_time'', JStr ''2024-05-01T09:00:00''),
                                      (''to_time'', JStr ''2024-05-01T10:00:00+09:00''),
                                      (''distance'', JNum (Finite 1200))])]),
                        (''sections'',
                         JArr [JObj [(''type'', JStr ''point''), (''name'', JStr ''A'')],
                               JObj [(''type'', JStr ''move''),
                                     (''from_time'', JStr ''2024-05-01T09:00:00''),
                                     (''line_name'', JStr ''L'')]])]]),
           (''unit'', JObj [(''time'', JStr ''minute'')])]"

definition sample_body_normalized :: jsval where
  "sample_body_normalized =
     JObj [(''items'',
            JArr [JObj [(''summary'',
                         JObj [(''no'', JStr ''1''),
                               (''move'',
                                JObj [(''from_time'', JStr ''2024-05-01T09:00:00+09:00''),
                                      (''to_time'', JStr ''2024-05-01T10:00:00+09:00''),
                                      (''distance'', JNum (Finite 1200))])]),
                        (''sections'',
                         JArr [JObj [(''type'', JStr ''point''), (''name'', JStr ''A'')],
                               JObj [(''type'', JStr ''move''),
                                     (''from_time'', JStr ''2024-05-01T09:00:00+09:00''),
                                     (''line_name'', JStr ''L'')]])]]),
           (''unit'', JObj [(''time'', JStr ''minute'')])]"

definition empty_section_time_body :: jsval where
  "empty_section_time_body =
     JObj [(''items'',
            JArr [JObj [(''sections'',
                         JArr [JObj [(''type'', JStr ''move''), (''from_time'', JStr [])]])]])]"

definition move_without_times_body :: jsval where
  "move_without_times_body =
     JObj [(''items'', JArr [JObj [(''summary'', JObj [(''move'', JObj [])])]])]"

section \<open>Properties\<close>

subsection \<open>Helper lemmas\<close>

lemma snd_catch_result: "snd (catch_result m r) = snd r"
  by (cases "(m, r)" rule: catch_result.cases) simp_all

lemma snd_attempt_Inr: "snd (attempt env (Inr rq) k) = [rq]"
  by (simp add: attempt_def split: sum.splits)

lemma attempt_Inl: "attempt env (Inl e) k = (Inl e, [])"
  by (simp add: attempt_def)

lemma is_string_field_obj: "is_string_field (JObj kv) k = Inr (string_valued kv k)"
  by (simp add: is_string_field_def andThen_def string_valued_def
      split: option.splits jsval.splits)

lemma optional_field_obj:
  "orelse (is_undefined_field (JObj kv) k) (Inr (string_valued kv k)) = Inr (absent_or_string kv k)"
  by (simp add: string_valued_def is_undefined_field_def orelse_def andThen_def
      absent_or_string_def split: option.splits jsval.splits)

lemma andalso_Inr: "andalso (Inr a) (Inr b) = Inr (a \<and> b)"
  by (simp add: andalso_def)

lemma directions_validator_shape:
  "isValidDirectionsArgs args = Inr (has_shape [''origin'', ''destination''] [''mode''] args)"
  by (cases args)
    (simp_all add: isValidDirectionsArgs_def has_shape_def is_string_field_obj optional_field_obj
      andalso_Inr, simp_all add: andalso_def is_string_field_def andThen_def)

lemma transit_validator_shape:
  "isValidRouteTransitArgs args =
     Inr (has_shape [''start'', ''goal'']
            [''start_time'', ''term'', ''limit'', ''datum'', ''coord_unit''] args)"
  by (cases args)
    (simp_all add: isValidRouteTransitArgs_def has_shape_def is_string_field_obj optional_field_obj
      andalso_Inr, simp_all add: andalso_def is_string_field_def andThen_def)

lemma valid_transit_obj:
  assumes "isValidRouteTransitArgs args = Inr True"
  obtains kv where "args = JObj kv" "absent_or_string kv ''start_time''"
  using assms by (cases args) (simp_all add: transit_validator_shape has_shape_def)

lemma start_time_param_cases:
  assumes "absent_or_string kv ''start_time''"
  shows "start_time_param env (JObj kv) =
     Inr (JStr (case map_of kv ''start_time'' of
                  Some (JStr s) \<Rightarrow> if s = [] then default_start_time else normalizeTime s
                | _ \<Rightarrow> default_start_time))"
  using assms
  by (simp add: start_time_param_def absent_or_string_def andThen_def
      split: option.splits jsval.splits)

lemma transit_request_obj:
  "start_time_param env (JObj kv) = Inr v \<Longrightarrow>
   \<exists>rq. transit_request env (JObj kv) = Inr rq \<and> map_of (params rq) ''start_time'' = Some v"
  by (simp add: transit_request_def andThen_def)

lemma sent_transit:
  assumes "isValidRouteTransitArgs args = Inr True" "transit_request env args = Inr rq"
  shows "snd (callTool_transit env ''route_transit'' args) = [rq]"
  using assms by (simp add: callTool_transit_def snd_catch_result snd_attempt_Inr)

lemma valid_args_empty_start_time: "isValidRouteTransitArgs args_empty_start_time = Inr True"
  by (simp add: transit_validator_shape has_shape_def args_empty_start_time_def
      string_valued_def absent_or_string_def)

lemma match_malformed_uri:
  "match_directions_uri ''directions://%E0%/Osaka'' = Some (''%E0%'', ''Osaka'')"
  by (simp add: match_directions_uri_def numeral_eq_Suc)

lemma decode_malformed: "decodeURIComponent ''%E0%'' = Inl URIError"
  by (simp add: decodeURIComponent_def hex_byte_def hex_digit_def utf8_lead_def emit_def)

subsection \<open>Start time of a transit request\<close>

text \<open>
  C2, as the code has it. For every valid transit tool call the request carries the
  start time \<open>2024-02-11T12:00:00+09:00\<close> when \<open>start_time\<close> is omitted or is the
  empty string; a non-empty \<open>start_time\<close> containing \<open>+\<close> is sent unchanged, and a
  non-empty one without \<open>+\<close> is sent with \<open>+09:00\<close> appended.
\<close>

theorem start_time_translation:
  assumes "isValidRouteTransitArgs args = Inr True"
  shows "(get args ''start_time'' = Inr JUndefined \<longrightarrow>
            sent_param (callTool_transit env ''route_transit'' args) ''start_time''
              = [Some (JStr ''2024-02-11T12:00:00+09:00'')])
       \<and> (\<forall>s. get args ''start_time'' = Inr (JStr s) \<longrightarrow>
            sent_param (callTool_transit env ''route_transit'' args) ''start_time''
              = [Some (JStr (if s = [] then ''2024-02-11T12:00:00+09:00''
                             else if CHR ''+'' \<in> set s then s else s @ ''+09:00''))])"
proof -
  from assms obtain kv where kv: "args = JObj kv" "absent_or_string kv ''start_time''"
    by (rule valid_transit_obj)
  let ?v = "JStr (case map_of kv ''start_time'' of
                  Some (JStr s) \<Rightarrow> if s = [] then default_start_time else normalizeTime s
                | _ \<Rightarrow> default_start_time)"
  have "start_time_param env (JObj kv) = Inr ?v"
    using kv(2) by (rule start_time_param_cases)
  then obtain rq where rq: "transit_request env (JObj kv) = Inr rq"
    "map_of (params rq) ''start_time'' = Some ?v"
    using transit_request_obj by blast
  have sent: "sent_param (callTool_transit env ''route_transit'' args) ''start_time'' = [Some ?v]"
    using sent_transit [of args env rq] assms rq kv(1) by (simp add: sent_param_def)
  show ?thesis
    unfolding sent using kv(1)
    by (auto simp: default_start_time_def normalizeTime_def split: option.splits jsval.splits)
qed

theorem start_time_translation_witness:
  "isValidRouteTransitArgs
     (JObj [(''start'', JStr ''A''), (''goal'', JStr ''B''),
            (''start_time'', JStr ''2024-05-01T09:00:00'')])
     = Inr True
   \<and> sent_param (callTool_transit (sample_env (\<lambda>rq. Inr JNull)) ''route_transit''
        (JObj [(''start'', JStr ''A''), (''goal'', JStr ''B''),
               (''start_time'', JStr ''2024-05-01T09:00:00'')])) ''start_time''
      = [Some (JStr ''2024-05-01T09:00:00+09:00'')]"
proof -
  have v: "isValidRouteTransitArgs
     (JObj [(''start'', JStr ''A''), (''goal'', JStr ''B''),
            (''start_time'', JStr ''2024-05-01T09:00:00'')])
     = Inr True"
    by (simp add: transit_validator_shape has_shape_def string_valued_def absent_or_string_def)
  show ?thesis
    using start_time_translation [OF v, of "sample_env (\<lambda>rq. Inr JNull)"] v by simp
qed

text \<open>
  C2 as stated fails at the empty string: it contains no \<open>+\<close>, yet the request
  carries the default start time and not \<open>+09:00\<close>.
\<close>

theorem start_time_empty_counterexample:
  "CHR ''+'' \<notin> set []
   \<and> isValidRouteTransitArgs args_empty_start_time = Inr True
   \<and> get args_empty_start_time ''start_time'' = Inr (JStr [])
   \<and> sent_param (callTool_transit (sample_env (\<lambda>rq. Inr JNull)) ''route_transit''
         args_empty_start_time) ''start_time''
       = [Some (JStr ''2024-02-11T12:00:00+09:00'')]
   \<and> ''2024-02-11T12:00:00+09:00'' \<noteq> [] @ ''+09:00''"
proof -
  have "transit_request (sample_env (\<lambda>rq. Inr JNull)) args_empty_start_time
        = Inr \<lparr>url = transit_base @ ''/route_transit'',
               params = [(''start'', JStr ''35.6,139.7''), (''goal'', JStr ''35.7,139.8''),
                         (''start_time'', JStr ''2024-02-11T12:00:00+09:00''),
                         (''term'', JStr ''60''), (''limit'', JStr ''3''),
                         (''datum'', JStr ''wgs84''), (''coord_unit'', JStr ''degree'')],
               headers = [(''x-rapidapi-key'', ''KEY''),
                          (''x-rapidapi-host'', ''navitime-route-totalnavi.p.rapidapi.com'')]\<rparr>"
    by (simp add: transit_request_def start_time_param_def andThen_def or_else_def
        args_empty_start_time_def default_start_time_def sample_env_def)
  then have "sent_param (callTool_transit (sample_env (\<lambda>rq. Inr JNull)) ''route_transit''
         args_empty_start_time) ''start_time'' = [Some (JStr ''2024-02-11T12:00:00+09:00'')]"
    using sent_transit [OF valid_args_empty_start_time] by (simp add: sent_param_def)
  then show ?thesis
    using valid_args_empty_start_time by (simp add: args_empty_start_time_def)
qed

subsection \<open>Timezone suffixing is idempotent\<close>

text \<open>
  C5. For every string \<open>s\<close>, \<open>addTimezone (addTimezone s) = addTimezone s\<close>: a value
  that contains \<open>+\<close> after the first application is not suffixed again. The same
  holds for the call as the normalizer makes it, on a string value.
\<close>

theorem addTimezone_idempotent:
  "addTimezone (addTimezone s) = addTimezone s
   \<and> andThen (call_addTimezone env (JStr s)) (call_addTimezone env) = call_addTimezone env (JStr s)"
  by (simp add: addTimezone_def andThen_def)

subsection \<open>The argument validators\<close>

text \<open>
  C6. For every input value the directions and the transit validator return a boolean
  and never raise, and the boolean is true exactly when the value is a non-null object
  whose required fields (origin and destination; start and goal) hold strings and whose
  optional fields are absent or hold strings. So they return false on null, on a
  non-object, on a missing required field and on a required field that is not a string.
\<close>

theorem validators_decide_shape:
  "isValidDirectionsArgs args = Inr (has_shape [''origin'', ''destination''] [''mode''] args)
   \<and> isValidRouteTransitArgs args =
       Inr (has_shape [''start'', ''goal'']
              [''start_time'', ''term'', ''limit'', ''datum'', ''coord_unit''] args)"
  by (simp add: directions_validator_shape transit_validator_shape)

subsection \<open>Unknown tool names\<close>

text \<open>
  C7. In each of the three servers a tool call whose name is not in the server's
  catalog raises the protocol error MethodNotFound and issues no request; no tool
  result is returned. In the places server the error raised inside the try block
  passes the catch unchanged.
\<close>

theorem unknown_tool_method_not_found:
  "(name \<notin> set directions_tools \<longrightarrow>
      callTool_directions env name args
        = (Inl (McpError MethodNotFound (''Unknown tool: '' @ name)), []))
   \<and> (name \<notin> set transit_tools \<longrightarrow>
      callTool_transit env name args
        = (Inl (McpError MethodNotFound (''Unknown tool: '' @ name)), []))
   \<and> (name \<notin> set places_tools \<longrightarrow>
      callTool_places env name args
        = (Inl (McpError MethodNotFound (''Unknown tool: '' @ name)), []))"
  by (simp add: callTool_directions_def callTool_transit_def callTool_places_def
      directions_tools_def transit_tools_def places_tools_def)

theorem unknown_tool_method_not_found_witness:
  "''bogus_tool'' \<notin> set directions_tools
   \<and> ''bogus_tool'' \<notin> set transit_tools
   \<and> ''bogus_tool'' \<notin> set places_tools
   \<and> callTool_directions (sample_env (\<lambda>rq. Inr JNull)) ''bogus_tool'' (JObj [])
       = (Inl (McpError MethodNotFound ''Unknown tool: bogus_tool''), [])
   \<and> callTool_transit (sample_env (\<lambda>rq. Inr JNull)) ''bogus_tool'' (JObj [])
       = (Inl (McpError MethodNotFound ''Unknown tool: bogus_tool''), [])
   \<and> callTool_places (sample_env (\<lambda>rq. Inr JNull)) ''bogus_tool'' (JObj [])
       = (Inl (McpError MethodNotFound ''Unknown tool: bogus_tool''), [])"
  using unknown_tool_method_not_found
          [of "''bogus_tool''" "sample_env (\<lambda>rq. Inr JNull)" "JObj []"]
  by (simp add: directions_tools_def transit_tools_def places_tools_def)

subsection \<open>A malformed percent-encoding in a resource URI\<close>

text \<open>
  C10. The URI \<open>directions://%E0%/Osaka\<close> matches the pattern, with the groups
  \<open>%E0%\<close> and \<open>Osaka\<close>; decoding the first group raises a URIError, which is neither
  the invalid-URI error nor the internal error of the catch. It leaves the handler as it
  is: no request is issued and no resource contents are returned.
\<close>

theorem malformed_escape_raises_URIError:
  "match_directions_uri ''directions://%E0%/Osaka'' = Some (''%E0%'', ''Osaka'')
   \<and> readResource env ''directions://%E0%/Osaka'' = (Inl URIError, [])"
  by (simp add: readResource_def match_malformed_uri decode_malformed)

subsection \<open>Lemmas on the requests of the handlers\<close>

lemma get_obj: "get (JObj kv) k = Inr (field kv k)"
  by (simp add: field_def)

lemma field_update: "field (AList.update k v kv) k' = (if k' = k then v else field kv k')"
  by (simp add: field_def update_conv')

lemma field_delete: "field (AList.delete k kv) k' = (if k' = k then JUndefined else field kv k')"
  by (simp add: field_def delete_conv')

lemma string_valued_field: "string_valued kv k = (typeof (field kv k) = ''string'')"
  by (simp add: string_valued_def field_def split: option.splits jsval.splits)

lemma absent_or_string_field:
  "absent_or_string kv k = (field kv k = JUndefined \<or> typeof (field kv k) = ''string'')"
  by (simp add: absent_or_string_def field_def split: option.splits jsval.splits)

lemma transit_request_fields:
  "transit_request env (JObj kv) =
     andThen (if truthy (field kv ''start_time'') then call_normalizeTime env (field kv ''start_time'')
              else Inr (JStr default_start_time))
       (\<lambda>startTime.
          Inr \<lparr>url = transit_base @ ''/route_transit'',
               params = [(''start'', field kv ''start''),
                         (''goal'', field kv ''goal''),
                         (''start_time'', startTime),
                         (''term'', or_else (field kv ''term'') (JStr ''60'')),
                         (''limit'', or_else (field kv ''limit'') (JStr ''3'')),
                         (''datum'', or_else (field kv ''datum'') (JStr ''wgs84'')),
                         (''coord_unit'', or_else (field kv ''coord_unit'') (JStr ''degree''))],
               headers = [(''x-rapidapi-key'', api_key env),
                          (''x-rapidapi-host'', ''navitime-route-totalnavi.p.rapidapi.com'')]\<rparr>)"
  unfolding transit_request_def start_time_param_def get_obj by (simp add: andThen_def)

lemma directions_request_fields:
  "directions_request env (JObj kv) =
       Inr \<lparr>url = directions_url,
            params = [(''origin'', field kv ''origin''),
                      (''destination'', field kv ''destination''),
                      (''mode'', or_else (field kv ''mode'') (JStr ''driving'')),
                      (''key'', JStr (api_key env))],
            headers = []\<rparr>"
  unfolding directions_request_def get_obj by (simp add: andThen_def)

lemma search_places_request_fields:
  "search_places_request env (JObj kv) =
       Inr \<lparr>url = places_base @ ''/findplacefromtext/json'',
            params = [(''key'', JStr (api_key env)),
                      (''input'', field kv ''query''),
                      (''inputtype'', JStr ''textquery''),
                      (''language'', or_else (field kv ''language'') (JStr ''ja'')),
                      (''fields'', JStr search_fields)],
            headers = []\<rparr>"
  unfolding search_places_request_def get_obj by (simp add: andThen_def)

lemma place_details_request_fields:
  "place_details_request env (JObj kv) =
       Inr \<lparr>url = places_base @ ''/details/json'',
            params = [(''key'', JStr (api_key env)),
                      (''place_id'', field kv ''placeId''),
                      (''language'', or_else (field kv ''language'') (JStr ''ja'')),
                      (''fields'', JStr details_fields)],
            headers = []\<rparr>"
  unfolding place_details_request_def get_obj by (simp add: andThen_def)

lemma nearby_search_request_fields:
  "nearby_search_request env (JObj kv) =
     andThen (get (field kv ''location'') ''lat'') (\<lambda>lat.
     andThen (get (field kv ''location'') ''lng'') (\<lambda>lng.
       Inr \<lparr>url = places_base @ ''/nearbysearch/json'',
            params = [(''key'', JStr (api_key env)),
                      (''location'', JStr (to_string (number_to_string env) lat @ '','' @
                                           to_string (number_to_string env) lng)),
                      (''radius'', or_else (field kv ''radius'') (JNum (Finite 1000))),
                      (''type'', field kv ''type''),
                      (''language'', or_else (field kv ''language'') (JStr ''ja''))],
            headers = []\<rparr>))"
  unfolding nearby_search_request_def get_obj by (simp add: andThen_def)

lemma snd_rethrow_internal: "snd (rethrow_internal env r) = snd r"
  by (cases "(env, r)" rule: rethrow_internal.cases) simp_all

lemma transit_valid_fields:
  "isValidRouteTransitArgs (JObj kv) =
    Inr (typeof (field kv ''start'') = ''string'' \<and> typeof (field kv ''goal'') = ''string''
       \<and> (field kv ''start_time'' = JUndefined \<or> typeof (field kv ''start_time'') = ''string'')
       \<and> (field kv ''term'' = JUndefined \<or> typeof (field kv ''term'') = ''string'')
       \<and> (field kv ''limit'' = JUndefined \<or> typeof (field kv ''limit'') = ''string'')
       \<and> (field kv ''datum'' = JUndefined \<or> typeof (field kv ''datum'') = ''string'')
       \<and> (field kv ''coord_unit'' = JUndefined \<or> typeof (field kv ''coord_unit'') = ''string''))"
  by (simp add: transit_validator_shape has_shape_def string_valued_field absent_or_string_field)

lemma directions_valid_fields:
  "isValidDirectionsArgs (JObj kv) =
    Inr (typeof (field kv ''origin'') = ''string'' \<and> typeof (field kv ''destination'') = ''string''
       \<and> (field kv ''mode'' = JUndefined \<or> typeof (field kv ''mode'') = ''string''))"
  by (simp add: directions_validator_shape has_shape_def string_valued_field absent_or_string_field)

lemma transit_request_valid:
  assumes "isValidRouteTransitArgs (JObj kv) = Inr True"
  shows "transit_request env (JObj kv) =
          Inr \<lparr>url = transit_base @ ''/route_transit'',
               params = [(''start'', field kv ''start''),
                         (''goal'', field kv ''goal''),
                         (''start_time'', JStr (translated_start_time (field kv ''start_time''))),
                         (''term'', or_else (field kv ''term'') (JStr ''60'')),
                         (''limit'', or_else (field kv ''limit'') (JStr ''3'')),
                         (''datum'', or_else (field kv ''datum'') (JStr ''wgs84'')),
                         (''coord_unit'', or_else (field kv ''coord_unit'') (JStr ''degree''))],
               headers = [(''x-rapidapi-key'', api_key env),
                          (''x-rapidapi-host'', ''navitime-route-totalnavi.p.rapidapi.com'')]\<rparr>"
proof -
  have "field kv ''start_time'' = JUndefined \<or> typeof (field kv ''start_time'') = ''string''"
    using assms by (simp add: transit_valid_fields)
  then have "(if truthy (field kv ''start_time'')
              then call_normalizeTime env (field kv ''start_time'')
              else Inr (JStr default_start_time))
           = Inr (JStr (translated_start_time (field kv ''start_time'')))"
    by (cases "field kv ''start_time''") (simp_all add: translated_start_time_def)
  then show ?thesis
    unfolding transit_request_fields by (simp add: andThen_def)
qed

lemma or_else_falsy:
  "or_else (JStr []) d = d" "or_else JUndefined d = d" "or_else (JNum (Finite 0)) d = d"
  by (simp_all add: or_else_def)

lemma transit_defaults_cases:
  assumes "(k, d) \<in> set transit_defaults"
  shows "(k = ''start_time'' \<and> d = default_start_time) \<or> (k = ''term'' \<and> d = ''60'')
    \<or> (k = ''limit'' \<and> d = ''3'') \<or> (k = ''datum'' \<and> d = ''wgs84'')
    \<or> (k = ''coord_unit'' \<and> d = ''degree'')"
  using assms unfolding transit_defaults_def default_start_time_def by simp

lemma transit_valid_empty_absent:
  assumes "(k, d) \<in> set transit_defaults"
  shows "isValidRouteTransitArgs (JObj (AList.update k (JStr []) kv))
       = isValidRouteTransitArgs (JObj (AList.delete k kv))"
  using transit_defaults_cases [OF assms]
  by (elim disjE conjE) (simp_all add: transit_valid_fields field_update field_delete)

lemma transit_request_empty_absent:
  assumes "(k, d) \<in> set transit_defaults"
  shows "transit_request env (JObj (AList.update k (JStr []) kv))
       = transit_request env (JObj (AList.delete k kv))"
  using transit_defaults_cases [OF assms]
  by (elim disjE conjE)
    (simp_all add: transit_request_fields field_update field_delete or_else_falsy)

lemma transit_empty_absent:
  assumes "(k, d) \<in> set transit_defaults"
  shows "callTool_transit env name (JObj (AList.update k (JStr []) kv))
       = callTool_transit env name (JObj (AList.delete k kv))"
  unfolding callTool_transit_def
  by (simp only: transit_valid_empty_absent [OF assms] transit_request_empty_absent [OF assms])

lemma transit_empty_default:
  assumes "(k, d) \<in> set transit_defaults"
    and "isValidRouteTransitArgs (JObj kv) = Inr True"
    and "field kv k = JStr []"
  shows "sent_param (callTool_transit env ''route_transit'' (JObj kv)) k = [Some (JStr d)]"
proof -
  have "snd (callTool_transit env ''route_transit'' (JObj kv)) =
     [\<lparr>url = transit_base @ ''/route_transit'',
               params = [(''start'', field kv ''start''),
                         (''goal'', field kv ''goal''),
                         (''start_time'', JStr (translated_start_time (field kv ''start_time''))),
                         (''term'', or_else (field kv ''term'') (JStr ''60'')),
                         (''limit'', or_else (field kv ''limit'') (JStr ''3'')),
                         (''datum'', or_else (field kv ''datum'') (JStr ''wgs84'')),
                         (''coord_unit'', or_else (field kv ''coord_unit'') (JStr ''degree''))],
               headers = [(''x-rapidapi-key'', api_key env),
                          (''x-rapidapi-host'', ''navitime-route-totalnavi.p.rapidapi.com'')]\<rparr>]"
    using assms(2) transit_request_valid [OF assms(2)] by (rule sent_transit)
  then have s: "sent_param (callTool_transit env ''route_transit'' (JObj kv)) k
      = [map_of [(''start'', field kv ''start''),
                         (''goal'', field kv ''goal''),
                         (''start_time'', JStr (translated_start_time (field kv ''start_time''))),
                         (''term'', or_else (field kv ''term'') (JStr ''60'')),
                         (''limit'', or_else (field kv ''limit'') (JStr ''3'')),
                         (''datum'', or_else (field kv ''datum'') (JStr ''wgs84'')),
                         (''coord_unit'', or_else (field kv ''coord_unit'') (JStr ''degree''))] k]"
    unfolding sent_param_def by simp
  show ?thesis
    unfolding s using transit_defaults_cases [OF assms(1)] assms(3)
    by (elim disjE conjE) (simp_all add: or_else_falsy translated_start_time_def)
qed

lemma catch_attempt_failed:
  "http env rq = Inl err \<Longrightarrow>
   catch_result msg (attempt env (Inr rq) k) = (Inr (error_result (msg err)), [rq])"
  by (simp add: attempt_def)

lemma rethrow_attempt_failed:
  "http env rq = Inl err \<Longrightarrow>
   rethrow_internal env (attempt env (Inr rq) k)
     = (Inl (McpError InternalError (''Google Maps API error: '' @ google_error_text env err)),
        [rq])"
  by (simp add: attempt_def)

lemma directions_failure:
  assumes "isValidDirectionsArgs args = Inr True" "directions_request env args = Inr rq"
    and "http env rq = Inl err"
  shows "callTool_directions env ''get_directions'' args
       = (Inr (error_result (''Google Maps API error: '' @ google_error_text env err)), [rq])"
  using assms(1,2) catch_attempt_failed [OF assms(3)]
  by (simp add: callTool_directions_def)

lemma transit_failure:
  assumes "isValidRouteTransitArgs args = Inr True" "transit_request env args = Inr rq"
    and "http env rq = Inl err"
  shows "callTool_transit env ''route_transit'' args
       = (Inr (error_result (''Navitime API error: '' @ navitime_error_text env err)), [rq])"
  using assms(1,2) catch_attempt_failed [OF assms(3)]
  by (simp add: callTool_transit_def)

lemma places_failure:
  assumes "http env rq = Inl err"
  shows "search_places_request env args = Inr rq \<Longrightarrow>
         callTool_places env ''search_places'' args
         = (Inr (error_result (''Google Places API error: '' @ google_error_text env err)), [rq])"
    and "place_details_request env args = Inr rq \<Longrightarrow>
         callTool_places env ''get_place_details'' args
         = (Inr (error_result (''Google Places API error: '' @ google_error_text env err)), [rq])"
    and "nearby_search_request env args = Inr rq \<Longrightarrow>
         callTool_places env ''nearby_search'' args
         = (Inr (error_result (''Google Places API error: '' @ google_error_text env err)), [rq])"
  using catch_attempt_failed [OF assms]
  by (simp_all add: callTool_places_def handleSearchPlaces_def handleGetPlaceDetails_def
      handleNearbySearch_def)

lemma read_failure:
  assumes "match_directions_uri uri = Some (g1, g2)"
    and "decodeURIComponent g1 = Inr origin" "decodeURIComponent g2 = Inr destination"
    and "http env \<lparr>url = directions_url,
                   params = [(''origin'', JStr origin), (''destination'', JStr destination),
                             (''key'', JStr (api_key env))],
                   headers = []\<rparr> = Inl err"
  shows "readResource env uri
       = (Inl (McpError InternalError (''Google Maps API error: '' @ google_error_text env err)),
          [\<lparr>url = directions_url,
            params = [(''origin'', JStr origin), (''destination'', JStr destination),
                      (''key'', JStr (api_key env))],
            headers = []\<rparr>])"
  using assms(1-3) rethrow_attempt_failed [OF assms(4)]
  by (simp add: readResource_def)

lemma directions_request_exists:
  "isValidDirectionsArgs args = Inr True \<Longrightarrow> \<exists>rq. directions_request env args = Inr rq"
  by (cases args) (simp_all add: directions_validator_shape has_shape_def directions_request_fields)

lemma transit_request_exists:
  assumes "isValidRouteTransitArgs args = Inr True"
  shows "\<exists>rq. transit_request env args = Inr rq"
proof -
  from assms obtain kv where kv: "args = JObj kv"
    by (rule valid_transit_obj)
  with assms have "isValidRouteTransitArgs (JObj kv) = Inr True" by simp
  from transit_request_valid [OF this, of env] show ?thesis
    unfolding kv by (rule exI)
qed

lemma google_text_network: "google_error_text env (AxiosError None m) = m"
  by (simp add: google_error_text_def or_else_def)

lemma google_text_upstream:
  "map_of kv ''error_message'' = Some (JStr u) \<Longrightarrow> u \<noteq> [] \<Longrightarrow>
   google_error_text env (AxiosError (Some (JObj kv)) m) = u"
  by (simp add: google_error_text_def or_else_def opt_get_def)

lemma navitime_text_network: "navitime_error_text env (AxiosError None m) = m"
  by (simp add: navitime_error_text_def nullish_else_def)

lemma navitime_text_upstream:
  "map_of kv ''message'' = Some (JStr u) \<Longrightarrow>
   navitime_error_text env (AxiosError (Some (JObj kv)) m) = u"
  by (simp add: navitime_error_text_def nullish_else_def opt_get_def)

lemma strip_prefix_append: "strip_prefix p (p @ s) = Some s"
  by (induction p) simp_all

lemma backtrack_last_slash:
  assumes "a \<noteq> []" "b \<noteq> []" "CHR ''/'' \<notin> set b" "length a \<le> n"
  shows "backtrack n (a @ CHR ''/'' # b) = Some (a, b)"
  using assms(4)
proof (induction n)
  case 0
  with assms(1) show ?case by simp
next
  case (Suc n)
  show ?case
  proof (cases "Suc n = length a")
    case True
    have d: "take 1 (drop (Suc n) (a @ CHR ''/'' # b)) = ''/''"
      "drop (Suc (Suc n)) (a @ CHR ''/'' # b) = b" "take (Suc n) (a @ CHR ''/'' # b) = a"
      by (simp_all add: True)
    show ?thesis
      unfolding backtrack.simps d using assms(2) by simp
  next
    case False
    with Suc.prems have le: "length a \<le> n" by simp
    have "take 1 (drop (Suc n) (a @ CHR ''/'' # b)) \<noteq> ''/''"
    proof
      assume h: "take 1 (drop (Suc n) (a @ CHR ''/'' # b)) = ''/''"
      have e: "drop (Suc n) (a @ CHR ''/'' # b) = drop (n - length a) b"
        using le by (simp add: Suc_diff_le)
      from h have "take 1 (drop (n - length a) b) = ''/''" unfolding e .
      then have "CHR ''/'' \<in> set (take 1 (drop (n - length a) b))" by simp
      then have "CHR ''/'' \<in> set b"
        by (meson in_set_dropD in_set_takeD)
      with assms(3) show False by simp
    qed
    then show ?thesis using Suc.IH [OF le] by simp
  qed
qed

lemma match_last_slash:
  assumes "a \<noteq> []" "b \<noteq> []" "CHR ''/'' \<notin> set b" "\<not> has_line_terminator (a @ CHR ''/'' # b)"
  shows "match_directions_uri (''directions://'' @ a @ CHR ''/'' # b) = Some (a, b)"
proof -
  have "backtrack (length (a @ CHR ''/'' # b)) (a @ CHR ''/'' # b) = Some (a, b)"
    using assms(1-3) by (rule backtrack_last_slash) simp
  then show ?thesis
    unfolding match_directions_uri_def strip_prefix_append using assms(4) by simp
qed

lemma read_last_slash:
  assumes "a \<noteq> []" "b \<noteq> []" "CHR ''/'' \<notin> set b" "\<not> has_line_terminator (a @ CHR ''/'' # b)"
    and "decodeURIComponent a = Inr origin" "decodeURIComponent b = Inr destination"
  shows "snd (readResource env (''directions://'' @ a @ CHR ''/'' # b))
         = [\<lparr>url = directions_url,
             params = [(''origin'', JStr origin), (''destination'', JStr destination),
                       (''key'', JStr (api_key env))],
             headers = []\<rparr>]"
  unfolding readResource_def match_last_slash [OF assms(1-4)]
  by (simp add: assms(5,6) snd_rethrow_internal snd_attempt_Inr)

lemma get_nullish: "nullish v \<Longrightarrow> get v k = Inl TypeError"
  by (cases v) simp_all

lemma get_not_nullish: "\<not> nullish v \<Longrightarrow> get v k = Inr (opt_get v k)"
  by (cases v) (simp_all add: opt_get_def)

lemma search_places_request_cases:
  "search_places_request env args =
     (if nullish args then Inl TypeError else Inr (search_places_sent env args))"
  by (simp add: search_places_request_def search_places_sent_def andThen_def get_nullish
      get_not_nullish)

lemma place_details_request_cases:
  "place_details_request env args =
     (if nullish args then Inl TypeError else Inr (place_details_sent env args))"
  by (simp add: place_details_request_def place_details_sent_def andThen_def get_nullish
      get_not_nullish)

lemma nearby_search_request_cases:
  "nearby_search_request env args =
     (if nullish args \<or> nullish (opt_get args ''location'') then Inl TypeError
      else Inr (nearby_search_sent env args))"
proof (cases "nullish args")
  case True
  then show ?thesis
    by (simp add: nearby_search_request_def andThen_def get_nullish)
next
  case False
  then show ?thesis
    by (cases "nullish (opt_get args ''location'')")
      (simp_all add: nearby_search_request_def nearby_search_sent_def andThen_def get_nullish
        get_not_nullish)
qed

lemma catch_attempt_Inr_not_mcp:
  "fst (catch_result msg (attempt env (Inr rq) (\<lambda>d. Inr (f d)))) \<noteq> Inl (McpError c m)"
  by (simp add: attempt_def split: sum.splits)

lemma catch_attempt_TypeError:
  "catch_result msg (attempt env (Inl TypeError) k) = (Inl TypeError, [])"
  by (simp add: attempt_def)

lemma places_not_invalid_params:
  "fst (callTool_places env name args) \<noteq> Inl (McpError InvalidParams m)"
  by (simp add: callTool_places_def handleSearchPlaces_def handleGetPlaceDetails_def
      handleNearbySearch_def catch_attempt_Inr_not_mcp catch_attempt_TypeError
      search_places_request_cases place_details_request_cases nearby_search_request_cases)

lemma places_type_error:
  assumes "name \<in> set places_tools"
    and "nullish args \<or> (name = ''nearby_search'' \<and> nullish (opt_get args ''location''))"
  shows "callTool_places env name args = (Inl TypeError, [])"
  using assms
  by (auto simp: places_tools_def callTool_places_def handleSearchPlaces_def
      handleGetPlaceDetails_def handleNearbySearch_def search_places_request_cases
      place_details_request_cases nearby_search_request_cases attempt_Inl)

lemma places_sent:
  assumes "\<not> nullish args"
  shows "snd (callTool_places env ''search_places'' args) = [search_places_sent env args]"
    and "snd (callTool_places env ''get_place_details'' args) = [place_details_sent env args]"
    and "\<not> nullish (opt_get args ''location'') \<Longrightarrow>
         snd (callTool_places env ''nearby_search'' args) = [nearby_search_sent env args]"
  using assms
  by (simp_all add: callTool_places_def handleSearchPlaces_def
      handleGetPlaceDetails_def handleNearbySearch_def search_places_request_cases
      place_details_request_cases nearby_search_request_cases snd_catch_result snd_attempt_Inr)

lemma opt_get_obj: "opt_get (JObj kv) k = field kv k"
  by (simp add: opt_get_def field_def)

lemma directions_empty_absent:
  "callTool_directions env name (JObj (AList.update ''mode'' (JStr []) kv))
       = callTool_directions env name (JObj (AList.delete ''mode'' kv))"
  by (simp add: callTool_directions_def directions_valid_fields directions_request_fields
        field_update field_delete or_else_falsy)

lemma directions_empty_default:
  assumes "isValidDirectionsArgs (JObj kv) = Inr True" and "field kv ''mode'' = JStr []"
  shows "sent_param (callTool_directions env ''get_directions'' (JObj kv)) ''mode''
           = [Some (JStr ''driving'')]"
  using assms
  by (simp add: callTool_directions_def directions_request_fields sent_param_def snd_catch_result
        snd_attempt_Inr or_else_falsy)

lemma places_language_empty_absent:
  "callTool_places env name (JObj (AList.update ''language'' (JStr []) kv))
       = callTool_places env name (JObj (AList.delete ''language'' kv))"
  by (simp add: callTool_places_def handleSearchPlaces_def handleGetPlaceDetails_def
      handleNearbySearch_def search_places_request_fields place_details_request_fields
      nearby_search_request_fields field_update field_delete or_else_falsy)

lemma places_radius_zero_absent:
  "callTool_places env name (JObj (AList.update ''radius'' (JNum (Finite 0)) kv))
       = callTool_places env name (JObj (AList.delete ''radius'' kv))"
  by (simp add: callTool_places_def handleSearchPlaces_def handleGetPlaceDetails_def
      handleNearbySearch_def search_places_request_fields place_details_request_fields
      nearby_search_request_fields field_update field_delete or_else_falsy)

lemma places_language_default:
  assumes "field kv ''language'' = JStr []"
  shows "sent_param (callTool_places env ''search_places'' (JObj kv)) ''language''
           = [Some (JStr ''ja'')]"
    and "sent_param (callTool_places env ''get_place_details'' (JObj kv)) ''language''
           = [Some (JStr ''ja'')]"
    and "\<not> nullish (field kv ''location'') \<Longrightarrow>
         sent_param (callTool_places env ''nearby_search'' (JObj kv)) ''language''
           = [Some (JStr ''ja'')]"
  using assms
  by (simp_all add: sent_param_def places_sent opt_get_obj search_places_sent_def
      place_details_sent_def nearby_search_sent_def or_else_falsy)

lemma places_radius_default:
  assumes "field kv ''radius'' = JNum (Finite 0)" "\<not> nullish (field kv ''location'')"
  shows "sent_param (callTool_places env ''nearby_search'' (JObj kv)) ''radius''
           = [Some (JNum (Finite 1000))]"
  using assms
  by (simp add: sent_param_def places_sent opt_get_obj nearby_search_sent_def or_else_falsy)

subsection \<open>The places dispatcher and ill-shaped arguments\<close>

text \<open>
  C1. The places dispatcher has no shape check, although its tool catalog declares
  \<open>query\<close>, \<open>placeId\<close> and \<open>location\<close> as required and the dispatchers of the two
  other servers check the arguments and raise InvalidParams. A search_places call with
  the arguments \<open>{}\<close>, which fail the shape contract, issues the GET with an undefined
  input and returns the upstream body as a result; a call without arguments raises a
  TypeError; and no call of the places dispatcher raises InvalidParams.
\<close>

theorem places_missing_query_unchecked:
  "\<not> places_shape ''search_places'' (JObj [])
   \<and> callTool_places (sample_env (\<lambda>rq. Inr JNull)) ''search_places'' (JObj [])
      = (Inr (ToolResult [TextContent ''null''] None),
         [\<lparr>url = ''https://maps.googleapis.com/maps/api/place/findplacefromtext/json'',
           params = [(''key'', JStr ''KEY''), (''input'', JUndefined),
                     (''inputtype'', JStr ''textquery''), (''language'', JStr ''ja''),
                     (''fields'',
                      JStr ''formatted_address,name,rating,opening_hours,geometry,place_id'')],
           headers = []\<rparr>])
   \<and> \<not> places_shape ''search_places'' JUndefined
   \<and> callTool_places (sample_env (\<lambda>rq. Inr JNull)) ''search_places'' JUndefined
      = (Inl TypeError, [])
   \<and> fst (callTool_places env name args) \<noteq> Inl (McpError InvalidParams m)"
  by (simp add: places_not_invalid_params)
     (simp add: places_shape_def field_def callTool_places_def handleSearchPlaces_def
      search_places_request_cases attempt_def search_places_sent_def opt_get_def or_else_def
      sample_env_def places_base_def search_fields_def text_result_def)

subsection \<open>Upstream failures\<close>

text \<open>
  C4. In each server a tool call with valid arguments (any arguments that can be read,
  for the places tools) issues the one request its translator builds, and when that
  request fails the handler returns a tool result with isError true and the text
  \<open><Provider> API error: \<close> followed by the upstream message, or by the message of the
  error when there is none (always so for a network error); no protocol error is raised.
  On the resource-read path of the directions server the same failure is raised as the
  protocol error InternalError, and no result is returned.
\<close>

theorem upstream_failure_handling:
  "(isValidDirectionsArgs dargs = Inr True
      \<longrightarrow> (\<exists>rq. directions_request env dargs = Inr rq))
   \<and> (isValidDirectionsArgs dargs = Inr True \<and> directions_request env dargs = Inr rqd
        \<and> http env rqd = Inl err
      \<longrightarrow> callTool_directions env ''get_directions'' dargs
          = (Inr (ToolResult
                    [TextContent (''Google Maps API error: '' @ google_error_text env err)]
                    (Some True)), [rqd]))
   \<and> (isValidRouteTransitArgs targs = Inr True
      \<longrightarrow> (\<exists>rq. transit_request env targs = Inr rq))
   \<and> (isValidRouteTransitArgs targs = Inr True \<and> transit_request env targs = Inr rqt
        \<and> http env rqt = Inl err
      \<longrightarrow> callTool_transit env ''route_transit'' targs
          = (Inr (ToolResult
                    [TextContent (''Navitime API error: '' @ navitime_error_text env err)]
                    (Some True)), [rqt]))
   \<and> (\<not> nullish pargs
      \<longrightarrow> search_places_request env pargs = Inr (search_places_sent env pargs)
        \<and> place_details_request env pargs = Inr (place_details_sent env pargs))
   \<and> (\<not> nullish pargs \<and> \<not> nullish (opt_get pargs ''location'')
      \<longrightarrow> nearby_search_request env pargs = Inr (nearby_search_sent env pargs))
   \<and> (search_places_request env pargs = Inr rqp \<and> http env rqp = Inl err
      \<longrightarrow> callTool_places env ''search_places'' pargs
          = (Inr (ToolResult
                    [TextContent (''Google Places API error: '' @ google_error_text env err)]
                    (Some True)), [rqp]))
   \<and> (place_details_request env pargs = Inr rqp \<and> http env rqp = Inl err
      \<longrightarrow> callTool_places env ''get_place_details'' pargs
          = (Inr (ToolResult
                    [TextContent (''Google Places API error: '' @ google_error_text env err)]
                    (Some True)), [rqp]))
   \<and> (nearby_search_request env pargs = Inr rqp \<and> http env rqp = Inl err
      \<longrightarrow> callTool_places env ''nearby_search'' pargs
          = (Inr (ToolResult
                    [TextContent (''Google Places API error: '' @ google_error_text env err)]
                    (Some True)), [rqp]))
   \<and> (match_directions_uri uri = Some (g1, g2)
        \<and> decodeURIComponent g1 = Inr origin \<and> decodeURIComponent g2 = Inr destination
        \<and> http env \<lparr>url = directions_url,
                      params = [(''origin'', JStr origin), (''destination'', JStr destination),
                                (''key'', JStr (api_key env))],
                      headers = []\<rparr> = Inl err
      \<longrightarrow> readResource env uri
          = (Inl (McpError InternalError
                    (''Google Maps API error: '' @ google_error_text env err)),
             [\<lparr>url = directions_url,
               params = [(''origin'', JStr origin), (''destination'', JStr destination),
                         (''key'', JStr (api_key env))],
               headers = []\<rparr>]))
   \<and> google_error_text env (AxiosError None m) = m
   \<and> (map_of kv ''error_message'' = Some (JStr u) \<and> u \<noteq> []
      \<longrightarrow> google_error_text env (AxiosError (Some (JObj kv)) m) = u)
   \<and> navitime_error_text env (AxiosError None m) = m
   \<and> (map_of kv ''message'' = Some (JStr u)
      \<longrightarrow> navitime_error_text env (AxiosError (Some (JObj kv)) m) = u)"
  using directions_failure [of dargs env rqd err] transit_failure [of targs env rqt err]
    places_failure [of env rqp err pargs] read_failure [of uri g1 g2 origin destination env err]
    directions_request_exists [of dargs env] transit_request_exists [of targs env]
  by (simp add: error_result_def google_text_network google_text_upstream
      navitime_text_network navitime_text_upstream search_places_request_cases
      place_details_request_cases nearby_search_request_cases)

theorem upstream_failure_handling_witness:
  "isValidDirectionsArgs
     (JObj [(''origin'', JStr ''Tokyo, Japan''), (''destination'', JStr ''Osaka, Japan'')])
     = Inr True
   \<and> callTool_directions (sample_env (\<lambda>rq. Inl key_invalid)) ''get_directions''
        (JObj [(''origin'', JStr ''Tokyo, Japan''), (''destination'', JStr ''Osaka, Japan'')])
     = (Inr (ToolResult [TextContent ''Google Maps API error: key invalid''] (Some True)),
        [\<lparr>url = ''https://maps.googleapis.com/maps/api/directions/json'',
          params = [(''origin'', JStr ''Tokyo, Japan''), (''destination'', JStr ''Osaka, Japan''),
                    (''mode'', JStr ''driving''), (''key'', JStr ''KEY'')],
          headers = []\<rparr>])
   \<and> isValidRouteTransitArgs
       (JObj [(''start'', JStr ''35.6,139.7''), (''goal'', JStr ''35.7,139.8'')]) = Inr True
   \<and> callTool_transit (sample_env (\<lambda>rq. Inl key_invalid)) ''route_transit''
        (JObj [(''start'', JStr ''35.6,139.7''), (''goal'', JStr ''35.7,139.8'')])
     = (Inr (ToolResult
               [TextContent ''Navitime API error: Request failed with status code 403'']
               (Some True)),
        [\<lparr>url = ''https://navitime-route-totalnavi.p.rapidapi.com/route_transit'',
          params = [(''start'', JStr ''35.6,139.7''), (''goal'', JStr ''35.7,139.8''),
                    (''start_time'', JStr ''2024-02-11T12:00:00+09:00''),
                    (''term'', JStr ''60''), (''limit'', JStr ''3''),
                    (''datum'', JStr ''wgs84''), (''coord_unit'', JStr ''degree'')],
          headers = [(''x-rapidapi-key'', ''KEY''),
                     (''x-rapidapi-host'', ''navitime-route-totalnavi.p.rapidapi.com'')]\<rparr>])
   \<and> callTool_places (sample_env (\<lambda>rq. Inl key_invalid)) ''search_places''
        (JObj [(''query'', JStr ''ramen'')])
     = (Inr (ToolResult [TextContent ''Google Places API error: key invalid''] (Some True)),
        [\<lparr>url = ''https://maps.googleapis.com/maps/api/place/findplacefromtext/json'',
          params = [(''key'', JStr ''KEY''), (''input'', JStr ''ramen''),
                    (''inputtype'', JStr ''textquery''), (''language'', JStr ''ja''),
                    (''fields'',
                     JStr ''formatted_address,name,rating,opening_hours,geometry,place_id'')],
          headers = []\<rparr>])
   \<and> readResource (sample_env (\<lambda>rq. Inl key_invalid)) ''directions://Tokyo/Osaka''
     = (Inl (McpError InternalError ''Google Maps API error: key invalid''),
        [\<lparr>url = ''https://maps.googleapis.com/maps/api/directions/json'',
          params = [(''origin'', JStr ''Tokyo''), (''destination'', JStr ''Osaka''),
                    (''key'', JStr ''KEY'')],
          headers = []\<rparr>])"
proof -
  let ?env = "sample_env (\<lambda>rq. Inl key_invalid)"
  let ?dargs = "JObj [(''origin'', JStr ''Tokyo, Japan''), (''destination'', JStr ''Osaka, Japan'')]"
  let ?targs = "JObj [(''start'', JStr ''35.6,139.7''), (''goal'', JStr ''35.7,139.8'')]"
  let ?pargs = "JObj [(''query'', JStr ''ramen'')]"
  let ?rqd = "\<lparr>url = ''https://maps.googleapis.com/maps/api/directions/json'',
          params = [(''origin'', JStr ''Tokyo, Japan''), (''destination'', JStr ''Osaka, Japan''),
                    (''mode'', JStr ''driving''), (''key'', JStr ''KEY'')],
          headers = []\<rparr>"
  let ?rqt = "\<lparr>url = ''https://navitime-route-totalnavi.p.rapidapi.com/route_transit'',
          params = [(''start'', JStr ''35.6,139.7''), (''goal'', JStr ''35.7,139.8''),
                    (''start_time'', JStr ''2024-02-11T12:00:00+09:00''),
                    (''term'', JStr ''60''), (''limit'', JStr ''3''),
                    (''datum'', JStr ''wgs84''), (''coord_unit'', JStr ''degree'')],
          headers = [(''x-rapidapi-key'', ''KEY''),
                     (''x-rapidapi-host'', ''navitime-route-totalnavi.p.rapidapi.com'')]\<rparr>"
  let ?rqp = "\<lparr>url = ''https://maps.googleapis.com/maps/api/place/findplacefromtext/json'',
          params = [(''key'', JStr ''KEY''), (''input'', JStr ''ramen''),
                    (''inputtype'', JStr ''textquery''), (''language'', JStr ''ja''),
                    (''fields'',
                     JStr ''formatted_address,name,rating,opening_hours,geometry,place_id'')],
          headers = []\<rparr>"
  have v: "isValidDirectionsArgs ?dargs = Inr True" "isValidRouteTransitArgs ?targs = Inr True"
    by (simp_all add: directions_valid_fields transit_valid_fields field_def)
  have q: "directions_request ?env ?dargs = Inr ?rqd" "transit_request ?env ?targs = Inr ?rqt"
    "search_places_request ?env ?pargs = Inr ?rqp"
    by (simp_all add: directions_request_fields transit_request_valid [OF v(2)]
        search_places_request_fields field_def or_else_def translated_start_time_def
        default_start_time_def directions_url_def transit_base_def places_base_def
        search_fields_def sample_env_def)
  have m: "match_directions_uri ''directions://Tokyo/Osaka'' = Some (''Tokyo'', ''Osaka'')"
    by (simp add: match_directions_uri_def numeral_eq_Suc)
  have d: "decodeURIComponent ''Tokyo'' = Inr ''Tokyo''" "decodeURIComponent ''Osaka'' = Inr ''Osaka''"
    by (simp_all add: decodeURIComponent_def emit_def)
  have h: "http ?env = (\<lambda>rq. Inl key_invalid)" "api_key ?env = ''KEY''"
    by (simp_all add: sample_env_def)
  have g: "google_error_text ?env key_invalid = ''key invalid''"
    "navitime_error_text ?env key_invalid = ''Request failed with status code 403''"
    by (simp_all add: google_error_text_def navitime_error_text_def key_invalid_def opt_get_def
        or_else_def nullish_else_def)
  show ?thesis
    using upstream_failure_handling
      [where env = ?env and dargs = ?dargs and targs = ?targs and pargs = ?pargs
         and rqd = ?rqd and rqt = ?rqt and rqp = ?rqp and err = key_invalid
         and uri = "''directions://Tokyo/Osaka''" and ?g1.0 = "''Tokyo''" and ?g2.0 = "''Osaka''"
         and origin = "''Tokyo''" and destination = "''Osaka''"]
    by (simp add: v q m d h g directions_url_def)
qed

subsection \<open>Optional fields that are present but falsy\<close>

text \<open>
  C8. An optional string field that is present and equal to the empty string is
  treated as if it were absent, and the fixed default is substituted: for the transit
  tool start_time gives the default timestamp and term, limit, datum and coord_unit give
  60, 3, wgs84 and degree; for the directions tool mode gives driving; for the places
  tools language gives ja; and a nearby_search radius of 0 gives 1000.
\<close>

theorem falsy_optional_field_as_absent:
  "(\<forall>(k, d) \<in> set transit_defaults.
       callTool_transit env name (JObj (AList.update k (JStr []) kv))
         = callTool_transit env name (JObj (AList.delete k kv))
     \<and> (isValidRouteTransitArgs (JObj kv) = Inr True \<and> field kv k = JStr []
          \<longrightarrow> sent_param (callTool_transit env ''route_transit'' (JObj kv)) k = [Some (JStr d)]))
   \<and> callTool_directions env name (JObj (AList.update ''mode'' (JStr []) kv))
       = callTool_directions env name (JObj (AList.delete ''mode'' kv))
   \<and> (isValidDirectionsArgs (JObj kv) = Inr True \<and> field kv ''mode'' = JStr []
        \<longrightarrow> sent_param (callTool_directions env ''get_directions'' (JObj kv)) ''mode''
            = [Some (JStr ''driving'')])
   \<and> callTool_places env name (JObj (AList.update ''language'' (JStr []) kv))
       = callTool_places env name (JObj (AList.delete ''language'' kv))
   \<and> (field kv ''language'' = JStr []
        \<longrightarrow> sent_param (callTool_places env ''search_places'' (JObj kv)) ''language''
              = [Some (JStr ''ja'')]
          \<and> sent_param (callTool_places env ''get_place_details'' (JObj kv)) ''language''
              = [Some (JStr ''ja'')])
   \<and> (field kv ''language'' = JStr [] \<and> \<not> nullish (field kv ''location'')
        \<longrightarrow> sent_param (callTool_places env ''nearby_search'' (JObj kv)) ''language''
              = [Some (JStr ''ja'')])
   \<and> callTool_places env name (JObj (AList.update ''radius'' (JNum (Finite 0)) kv))
       = callTool_places env name (JObj (AList.delete ''radius'' kv))
   \<and> (field kv ''radius'' = JNum (Finite 0) \<and> \<not> nullish (field kv ''location'')
        \<longrightarrow> sent_param (callTool_places env ''nearby_search'' (JObj kv)) ''radius''
              = [Some (JNum (Finite 1000))])"
proof -
  have "\<forall>(k, d) \<in> set transit_defaults.
       callTool_transit env name (JObj (AList.update k (JStr []) kv))
         = callTool_transit env name (JObj (AList.delete k kv))
     \<and> (isValidRouteTransitArgs (JObj kv) = Inr True \<and> field kv k = JStr []
          \<longrightarrow> sent_param (callTool_transit env ''route_transit'' (JObj kv)) k = [Some (JStr d)])"
    using transit_empty_absent transit_empty_default by blast
  then show ?thesis
    using directions_empty_default [of kv env] places_language_default [of kv env]
      places_radius_default [of kv env]
    by (simp only: directions_empty_absent places_language_empty_absent
        places_radius_zero_absent) simp
qed

theorem falsy_optional_field_as_absent_witness:
  "(''term'', ''60'') \<in> set transit_defaults
   \<and> isValidRouteTransitArgs (JObj sample_args) = Inr True
   \<and> field sample_args ''term'' = JStr []
   \<and> sent_param (callTool_transit (sample_env (\<lambda>rq. Inr JNull)) ''route_transit''
        (JObj sample_args)) ''term'' = [Some (JStr ''60'')]
   \<and> isValidDirectionsArgs (JObj sample_args) = Inr True
   \<and> field sample_args ''mode'' = JStr []
   \<and> sent_param (callTool_directions (sample_env (\<lambda>rq. Inr JNull)) ''get_directions''
        (JObj sample_args)) ''mode'' = [Some (JStr ''driving'')]
   \<and> field sample_args ''language'' = JStr []
   \<and> sent_param (callTool_places (sample_env (\<lambda>rq. Inr JNull)) ''search_places''
        (JObj sample_args)) ''language'' = [Some (JStr ''ja'')]
   \<and> field sample_args ''radius'' = JNum (Finite 0)
   \<and> \<not> nullish (field sample_args ''location'')
   \<and> sent_param (callTool_places (sample_env (\<lambda>rq. Inr JNull)) ''nearby_search''
        (JObj sample_args)) ''radius'' = [Some (JNum (Finite 1000))]"
proof -
  have t: "(''term'', ''60'') \<in> set transit_defaults"
    by (simp add: transit_defaults_def)
  have f: "field sample_args ''term'' = JStr []" "field sample_args ''mode'' = JStr []"
    "field sample_args ''language'' = JStr []" "field sample_args ''radius'' = JNum (Finite 0)"
    "\<not> nullish (field sample_args ''location'')"
    by (simp_all add: field_def sample_args_def)
  have v: "isValidRouteTransitArgs (JObj sample_args) = Inr True"
    "isValidDirectionsArgs (JObj sample_args) = Inr True"
    by (simp_all add: transit_valid_fields directions_valid_fields field_def sample_args_def)
  from falsy_optional_field_as_absent [of "sample_env (\<lambda>rq. Inr JNull)" _ sample_args]
  have "(\<forall>(k, d) \<in> set transit_defaults.
       isValidRouteTransitArgs (JObj sample_args) = Inr True \<and> field sample_args k = JStr []
          \<longrightarrow> sent_param (callTool_transit (sample_env (\<lambda>rq. Inr JNull)) ''route_transit''
                 (JObj sample_args)) k = [Some (JStr d)])"
    and rest: "sent_param (callTool_directions (sample_env (\<lambda>rq. Inr JNull)) ''get_directions''
        (JObj sample_args)) ''mode'' = [Some (JStr ''driving'')]"
      "sent_param (callTool_places (sample_env (\<lambda>rq. Inr JNull)) ''search_places''
        (JObj sample_args)) ''language'' = [Some (JStr ''ja'')]"
      "sent_param (callTool_places (sample_env (\<lambda>rq. Inr JNull)) ''nearby_search''
        (JObj sample_args)) ''radius'' = [Some (JNum (Finite 1000))]"
    using f v by fast+
  then have "sent_param (callTool_transit (sample_env (\<lambda>rq. Inr JNull)) ''route_transit''
        (JObj sample_args)) ''term'' = [Some (JStr ''60'')]"
    using t f(1) v(1) by fast
  then show ?thesis
    using t f v rest by simp
qed

subsection \<open>Resource URIs with more than one slash\<close>

text \<open>
  C9, as the code has it. For every resource URI \<open>directions://\<close> followed by a
  string that has a non-empty part before its last \<open>/\<close> (so also one with two or more
  \<open>/\<close>) and a non-empty final segment, that holds no line terminator and whose two
  parts are well-formed percent-encodings, the read handler accepts the URI: the greedy
  first group takes the text before the last \<open>/\<close>, and the request carries the decoded
  text before the last \<open>/\<close> as origin and the decoded final segment as destination.
\<close>

theorem resource_uri_greedy_split:
  assumes "a \<noteq> []" "b \<noteq> []" "CHR ''/'' \<notin> set b"
    and "\<not> has_line_terminator (a @ CHR ''/'' # b)"
    and "decodeURIComponent a = Inr origin" "decodeURIComponent b = Inr destination"
  shows "match_directions_uri (''directions://'' @ a @ CHR ''/'' # b) = Some (a, b)
       \<and> snd (readResource env (''directions://'' @ a @ CHR ''/'' # b))
         = [\<lparr>url = directions_url,
             params = [(''origin'', JStr origin), (''destination'', JStr destination),
                       (''key'', JStr (api_key env))],
             headers = []\<rparr>]"
  using match_last_slash [OF assms(1-4)] read_last_slash [OF assms] by simp

theorem resource_uri_greedy_split_witness:
  "''A/B'' \<noteq> [] \<and> ''C'' \<noteq> [] \<and> CHR ''/'' \<notin> set ''C''
   \<and> \<not> has_line_terminator ''A/B/C''
   \<and> decodeURIComponent ''A/B'' = Inr ''A/B'' \<and> decodeURIComponent ''C'' = Inr ''C''
   \<and> match_directions_uri ''directions://A/B/C'' = Some (''A/B'', ''C'')
   \<and> snd (readResource (sample_env (\<lambda>rq. Inr JNull)) ''directions://A/B/C'')
      = [\<lparr>url = directions_url,
          params = [(''origin'', JStr ''A/B''), (''destination'', JStr ''C''),
                    (''key'', JStr ''KEY'')],
          headers = []\<rparr>]"
proof -
  have h: "''A/B'' \<noteq> []" "''C'' \<noteq> []" "CHR ''/'' \<notin> set ''C''"
    "\<not> has_line_terminator (''A/B'' @ CHR ''/'' # ''C'')"
    by simp_all
  have d: "decodeURIComponent ''A/B'' = Inr ''A/B''" "decodeURIComponent ''C'' = Inr ''C''"
    by (simp_all add: decodeURIComponent_def emit_def)
  show ?thesis
    using resource_uri_greedy_split [OF h d, of "sample_env (\<lambda>rq. Inr JNull)"] d
    by (simp add: sample_env_def)
qed

text \<open>
  C9 as stated fails when the final segment is empty: \<open>directions://A/B/\<close> has two
  \<open>/\<close> after the scheme, but the last \<open>/\<close> cannot end the first group, and the
  request carries origin \<open>A\<close> and destination \<open>B/\<close>, not \<open>A/B\<close> and the empty string.
  And \<open>directions:////\<close> is refused.
\<close>

theorem resource_uri_trailing_slash_counterexample:
  "snd (readResource (sample_env (\<lambda>rq. Inr JNull)) ''directions://A/B/'')
     = [\<lparr>url = directions_url,
         params = [(''origin'', JStr ''A''), (''destination'', JStr ''B/''),
                   (''key'', JStr ''KEY'')],
         headers = []\<rparr>]
   \<and> readResource (sample_env (\<lambda>rq. Inr JNull)) ''directions:////''
     = (Inl (McpError InvalidRequest ''Invalid URI: directions:////''), [])"
proof -
  have m: "match_directions_uri ''directions://A/B/'' = Some (''A'', ''B/'')"
    "match_directions_uri ''directions:////'' = None"
    by (simp_all add: match_directions_uri_def numeral_eq_Suc)
  show ?thesis
    by (simp add: readResource_def m decodeURIComponent_def emit_def snd_rethrow_internal
        snd_attempt_Inr sample_env_def)
qed

subsection \<open>Lemmas on the response normalizer\<close>

lemma map_entry_keys: "map fst (map_entry k f kv) = map fst kv"
  by (induction kv) (auto simp: map_entry_def)

lemma map_of_map_entry:
  "map_of (map_entry k f kv) k' = (if k' = k then map_option f (map_of kv k) else map_of kv k')"
  by (induction kv) (auto simp: map_entry_def)

lemma field_map_entry_other: "k' \<noteq> k \<Longrightarrow> field (map_entry k f kv) k' = field kv k'"
  by (simp add: field_def map_of_map_entry)

lemma map_entry_absent: "map_of kv k = None \<Longrightarrow> map_entry k f kv = kv"
  by (induction kv) (auto simp: map_entry_def split: if_splits)

lemma map_entry_update:
  "distinct (map fst kv) \<Longrightarrow> map_of kv k = Some x \<Longrightarrow> map_entry k f kv = AList.update k (f x) kv"
proof (induction kv)
  case Nil
  then show ?case by simp
next
  case (Cons p kv)
  show ?case
  proof (cases "fst p = k")
    case True
    with Cons.prems have "map_of kv k = None" "snd p = x"
      by (auto simp: map_of_eq_None_iff)
    then have "map_entry k f kv = kv" by (simp add: map_entry_absent)
    then show ?thesis
      using True \<open>snd p = x\<close> by (cases p) (simp add: map_entry_def)
  next
    case False
    with Cons.prems have "map_entry k f kv = AList.update k (f x) kv"
      by (intro Cons.IH) auto
    then show ?thesis
      using False by (cases p) (simp add: map_entry_def)
  qed
qed

lemma field_present: "field kv k \<noteq> JUndefined \<Longrightarrow> map_of kv k = Some (field kv k)"
  by (simp add: field_def split: option.splits)

lemma set_field_present:
  assumes "distinct (map fst kv)" "map_of kv k = Some x"
  shows "set_field (JObj kv) k (f x) = Inr (on_field k f (JObj kv))"
  using assms by (simp add: map_entry_update)

lemma on_field_fixed:
  assumes "distinct (map fst kv)" "f (field kv k) = field kv k"
  shows "on_field k f (JObj kv) = JObj kv"
proof (cases "map_of kv k")
  case None
  then show ?thesis by (simp add: map_entry_absent)
next
  case (Some x)
  with assms(2) have "f x = x" by (simp add: field_def)
  with assms(1) Some show ?thesis by (simp add: map_entry_update update_triv)
qed

lemma andThen_Inr: "andThen (Inr x) f = f x"
  by (simp add: andThen_def)

lemma map_exn_all:
  "(\<And>x. x \<in> set xs \<Longrightarrow> f x = Inr (g x)) \<Longrightarrow> map_exn f xs = Inr (map g xs)"
  by (induction xs) simp_all

lemma distinct_keys_field: "distinct_keys (JObj kv) \<Longrightarrow> distinct_keys (field kv k)"
proof (cases "map_of kv k")
  case None
  then show ?thesis by (simp add: field_def)
next
  case (Some x)
  assume "distinct_keys (JObj kv)"
  moreover from Some have "(k, x) \<in> set kv" by (rule map_of_SomeD)
  ultimately have "distinct_keys x" by fastforce
  with Some show ?thesis by (simp add: field_def)
qed

lemma is_string_cases: "is_string v \<Longrightarrow> \<exists>s. v = JStr s"
  by (cases v) simp_all

lemma normalize_move_ok:
  assumes "distinct (map fst kv)"
    and "is_string (field kv ''from_time'')" "is_string (field kv ''to_time'')"
  shows "normalize_move env (JObj kv) = Inr (retimed_move (JObj kv))"
proof -
  from assms(2,3) obtain a b where
    ab: "field kv ''from_time'' = JStr a" "field kv ''to_time'' = JStr b"
    by (blast dest: is_string_cases)
  let ?kv1 = "map_entry ''from_time'' suffixed kv"
  have m: "map_of kv ''from_time'' = Some (JStr a)"
    using field_present [of kv "''from_time''"] ab(1) by simp
  have s1: "set_field (JObj kv) ''from_time'' (JStr (addTimezone a)) = Inr (JObj ?kv1)"
    using set_field_present [OF assms(1) m, of suffixed] by simp
  have f1: "field ?kv1 ''to_time'' = JStr b"
    using ab(2) by (simp add: field_map_entry_other)
  have d1: "distinct (map fst ?kv1)"
    using assms(1) by (simp add: map_entry_keys)
  have m1: "map_of ?kv1 ''to_time'' = Some (JStr b)"
    using field_present [of ?kv1 "''to_time''"] f1 by simp
  have s2: "set_field (JObj ?kv1) ''to_time'' (JStr (addTimezone b))
            = Inr (on_field ''to_time'' suffixed (JObj ?kv1))"
    using set_field_present [OF d1 m1, of suffixed] by simp
  show ?thesis
    unfolding normalize_move_def retimed_move_def
    by (simp add: andThen_Inr ab s1 get_obj f1 s2 del: get.simps set_field.simps)
qed

lemma falsy_suffixed_nonempty: "\<not> truthy v \<Longrightarrow> suffixed_nonempty v = v"
  by (cases v) simp_all

lemma guarded_time:
  assumes "distinct (map fst kv)" "optional_time (field kv k)"
  shows "(if truthy (field kv k)
          then andThen (call_addTimezone env (field kv k)) (set_field (JObj kv) k)
          else Inr (JObj kv))
         = Inr (on_field k suffixed_nonempty (JObj kv))"
proof (cases "truthy (field kv k)")
  case True
  with assms(2) obtain a where a: "field kv k = JStr a" "a \<noteq> []"
    by (auto simp: optional_time_def dest: is_string_cases)
  then have m: "map_of kv k = Some (JStr a)"
    using field_present [of kv k] by simp
  have "set_field (JObj kv) k (JStr (addTimezone a)) = Inr (on_field k suffixed_nonempty (JObj kv))"
    using set_field_present [OF assms(1) m, of suffixed_nonempty] a(2) by simp
  then show ?thesis
    using True a by (simp add: andThen_def del: set_field.simps on_field.simps)
next
  case False
  then have "on_field k suffixed_nonempty (JObj kv) = JObj kv"
    using assms(1) by (intro on_field_fixed) (simp_all add: falsy_suffixed_nonempty)
  with False show ?thesis by simp
qed

lemma normalize_section_ok:
  assumes "distinct_keys s" "section_ok s"
  shows "normalize_section env s = Inr (retimed_section s)"
proof (cases s)
  case (JObj kv)
  show ?thesis
  proof (cases "field kv ''type'' = JStr ''move''")
    case True
    let ?kv1 = "map_entry ''from_time'' suffixed_nonempty kv"
    from assms JObj True have d: "distinct (map fst kv)"
      and o: "optional_time (field kv ''from_time'')" "optional_time (field kv ''to_time'')"
      by (simp_all add: section_ok_def opt_get_obj)
    have d1: "distinct (map fst ?kv1)" using d by (simp add: map_entry_keys)
    have o1: "optional_time (field ?kv1 ''to_time'')"
      using o(2) by (simp add: field_map_entry_other)
    have g1: "(if truthy (field kv ''from_time'')
          then andThen (call_addTimezone env (field kv ''from_time''))
                 (set_field (JObj kv) ''from_time'')
          else Inr (JObj kv)) = Inr (JObj ?kv1)"
      using guarded_time [OF d o(1), of env] by simp
    have g2: "(if truthy (field ?kv1 ''to_time'')
          then andThen (call_addTimezone env (field ?kv1 ''to_time''))
                 (set_field (JObj ?kv1) ''to_time'')
          else Inr (JObj ?kv1)) = Inr (on_field ''to_time'' suffixed_nonempty (JObj ?kv1))"
      using guarded_time [OF d1 o1, of env] by simp
    show ?thesis
      unfolding normalize_section_def retimed_section_def JObj
      by (simp add: andThen_Inr True g1 g2 get_obj opt_get_obj del: get.simps set_field.simps)
  next
    case False
    then show ?thesis
      by (simp add: normalize_section_def retimed_section_def JObj andThen_def opt_get_obj
          field_def)
  qed
qed (use assms in \<open>simp_all add: normalize_section_def retimed_section_def section_ok_def
       andThen_def opt_get_def\<close>)

lemma normalize_sections_ok:
  assumes "\<forall>s \<in> set xs. distinct_keys s" "list_all section_ok xs"
  shows "map_exn (normalize_section env) xs = Inr (map retimed_section xs)"
  using assms by (intro map_exn_all normalize_section_ok) (auto simp: list_all_iff)

lemma on_elems_not_array: "\<not> isArray v \<Longrightarrow> on_elems g v = v"
  by (cases v) simp_all

lemma on_field_not_object: "\<not> truthy v \<Longrightarrow> on_field k f v = v"
  by (cases v) simp_all

lemma array_field_step:
  assumes "distinct (map fst kv)"
    and "\<And>xs. field kv k = JArr xs \<Longrightarrow> map_exn h xs = Inr (map g xs)"
  shows "(if truthy (field kv k) \<and> isArray (field kv k)
          then andThen (map_exn h (elems (field kv k))) (\<lambda>ys. set_field (JObj kv) k (JArr ys))
          else Inr (JObj kv))
         = Inr (on_field k (on_elems g) (JObj kv))"
proof (cases "isArray (field kv k)")
  case True
  then obtain xs where xs: "field kv k = JArr xs"
    by (cases "field kv k") simp_all
  then have m: "map_of kv k = Some (JArr xs)"
    using field_present [of kv k] by simp
  have "set_field (JObj kv) k (JArr (map g xs)) = Inr (on_field k (on_elems g) (JObj kv))"
    using set_field_present [OF assms(1) m, of "on_elems g"] by simp
  then show ?thesis
    using assms(2) [OF xs] xs
    by (simp add: andThen_Inr del: set_field.simps on_field.simps)
next
  case False
  then have "on_field k (on_elems g) (JObj kv) = JObj kv"
    using assms(1) by (intro on_field_fixed) (simp_all add: on_elems_not_array)
  with False show ?thesis by simp
qed

lemma retimed_move_falsy: "\<not> truthy m \<Longrightarrow> retimed_move m = m"
  by (simp add: retimed_move_def on_field_not_object)

lemma move_step:
  assumes "distinct_keys (JObj skv)" "move_ok (field skv ''move'')"
  shows "(if truthy (field skv ''move'')
          then andThen (normalize_move env (field skv ''move''))
                 (\<lambda>move'. andThen (set_field (JObj skv) ''move'' move') k)
          else r)
         = (if truthy (field skv ''move'')
            then k (on_field ''move'' retimed_move (JObj skv)) else r)"
proof (cases "truthy (field skv ''move'')")
  case True
  with assms(2) have s: "is_string (opt_get (field skv ''move'') ''from_time'')"
    "is_string (opt_get (field skv ''move'') ''to_time'')"
    by (simp_all add: move_ok_def)
  then obtain mkv where mkv: "field skv ''move'' = JObj mkv"
    by (cases "field skv ''move''") (simp_all add: opt_get_def)
  have d: "distinct (map fst skv)" using assms(1) by simp
  have "distinct_keys (JObj mkv)"
    using distinct_keys_field [OF assms(1), of "''move''"] mkv by simp
  then have dm: "distinct (map fst mkv)" by simp
  have n: "normalize_move env (JObj mkv) = Inr (retimed_move (JObj mkv))"
    using s mkv by (intro normalize_move_ok dm) (simp_all add: opt_get_obj)
  have m: "map_of skv ''move'' = Some (JObj mkv)"
    using field_present [of skv "''move''"] mkv by simp
  have "set_field (JObj skv) ''move'' (retimed_move (JObj mkv))
        = Inr (on_field ''move'' retimed_move (JObj skv))"
    by (rule set_field_present [OF d m])
  then show ?thesis
    using True mkv n by (simp add: andThen_Inr del: set_field.simps on_field.simps)
next
  case False
  then show ?thesis by simp
qed

lemma summary_fixed:
  assumes "distinct_keys v" "\<not> truthy (opt_get v ''move'')"
  shows "on_field ''move'' retimed_move v = v"
proof (cases v)
  case (JObj skv)
  with assms show ?thesis
    by (intro on_field_fixed [of skv retimed_move "''move''", folded JObj])
       (simp_all add: opt_get_obj retimed_move_falsy)
qed simp_all

lemma summary_step:
  assumes "distinct_keys (JObj kv)" "move_ok (opt_get (field kv ''summary'') ''move'')"
  shows "(if truthy (field kv ''summary'') then
            andThen (get (field kv ''summary'') ''move'') (\<lambda>move.
              if truthy move then
                andThen (normalize_move env move) (\<lambda>move'.
                andThen (set_field (field kv ''summary'') ''move'' move') (\<lambda>summary'.
                  set_field (JObj kv) ''summary'' summary'))
              else Inr (JObj kv))
          else Inr (JObj kv))
         = Inr (on_field ''summary'' (on_field ''move'' retimed_move) (JObj kv))"
proof -
  let ?s = "field kv ''summary''"
  have d: "distinct (map fst kv)" using assms(1) by simp
  have ds: "distinct_keys ?s" using assms(1) by (rule distinct_keys_field)
  show ?thesis
  proof (cases "truthy ?s \<and> truthy (opt_get ?s ''move'')")
    case True
    then obtain skv where skv: "?s = JObj skv"
      by (cases ?s) (simp_all add: opt_get_def)
    have m: "map_of kv ''summary'' = Some (JObj skv)"
      using field_present [of kv "''summary''"] skv by simp
    have mv: "move_ok (field skv ''move'')" "truthy (field skv ''move'')"
      using assms(2) True by (simp_all add: skv opt_get_obj)
    have "set_field (JObj kv) ''summary'' (on_field ''move'' retimed_move (JObj skv))
          = Inr (on_field ''summary'' (on_field ''move'' retimed_move) (JObj kv))"
      by (rule set_field_present [OF d m])
    then show ?thesis
      using move_step [OF ds [unfolded skv] mv(1), of env "\<lambda>summary'. set_field (JObj kv) ''summary'' summary'" "Inr (JObj kv)"] mv(2)
      by (simp add: skv get_obj andThen_Inr del: get.simps set_field.simps on_field.simps)
  next
    case False
    have "on_field ''move'' retimed_move ?s = ?s"
    proof (cases "truthy ?s")
      case True
      with False ds show ?thesis by (intro summary_fixed) simp_all
    next
      case False
      then show ?thesis by (rule on_field_not_object)
    qed
    then have f: "on_field ''summary'' (on_field ''move'' retimed_move) (JObj kv) = JObj kv"
      using d by (intro on_field_fixed)
    show ?thesis
    proof (cases "truthy ?s")
      case True
      with False have nm: "\<not> truthy (opt_get ?s ''move'')" by simp
      from True have "\<not> nullish ?s" by (cases ?s) simp_all
      then have "get ?s ''move'' = Inr (opt_get ?s ''move'')" by (rule get_not_nullish)
      with True nm f show ?thesis by (simp add: andThen_Inr del: on_field.simps)
    next
      case False
      with f show ?thesis by (simp del: on_field.simps)
    qed
  qed
qed

lemma normalize_item_ok:
  assumes "distinct_keys item" "item_ok item"
  shows "normalize_item env item = Inr (retimed_item item)"
proof (cases item)
  case (JObj kv)
  let ?kv1 = "map_entry ''summary'' (on_field ''move'' retimed_move) kv"
  have d1: "distinct (map fst ?kv1)"
    using assms(1) JObj by (simp add: map_entry_keys)
  have f1: "field ?kv1 ''sections'' = field kv ''sections''"
    by (simp add: field_map_entry_other)
  have s1: "(if truthy (field kv ''summary'') then
            andThen (get (field kv ''summary'') ''move'') (\<lambda>move.
              if truthy move then
                andThen (normalize_move env move) (\<lambda>move'.
                andThen (set_field (field kv ''summary'') ''move'' move') (\<lambda>summary'.
                  set_field (JObj kv) ''summary'' summary'))
              else Inr (JObj kv))
          else Inr (JObj kv))
         = Inr (JObj ?kv1)"
    using summary_step [of kv env] assms JObj by (simp add: item_ok_def opt_get_obj)
  have sec: "map_exn (normalize_section env) xs = Inr (map retimed_section xs)"
    if "field ?kv1 ''sections'' = JArr xs" for xs
  proof -
    from that have x: "field kv ''sections'' = JArr xs" by (simp add: f1)
    have "distinct_keys (field kv ''sections'')"
      using assms(1) unfolding JObj by (rule distinct_keys_field)
    with x have "\<forall>s \<in> set xs. distinct_keys s" by simp
    moreover have "list_all section_ok xs"
      using assms(2) x by (simp add: item_ok_def JObj opt_get_obj)
    ultimately show ?thesis by (rule normalize_sections_ok)
  qed
  have s2: "(if truthy (field ?kv1 ''sections'') \<and> isArray (field ?kv1 ''sections'')
          then andThen (map_exn (normalize_section env) (elems (field ?kv1 ''sections'')))
                 (\<lambda>ys. set_field (JObj ?kv1) ''sections'' (JArr ys))
          else Inr (JObj ?kv1))
         = Inr (on_field ''sections'' (on_elems retimed_section) (JObj ?kv1))"
    using d1 sec by (rule array_field_step)
  show ?thesis
    unfolding normalize_item_def retimed_item_def JObj
    by (simp add: get_obj andThen_Inr s1 s2 del: get.simps set_field.simps)
qed (use assms in \<open>simp_all add: normalize_item_def retimed_item_def item_ok_def andThen_def\<close>)

lemma normalize_ok:
  assumes "distinct_keys body" "body_ok body"
  shows "normalize env body = Inr (retimed_body body)"
proof (cases body)
  case (JObj kv)
  have d: "distinct (map fst kv)" using assms(1) JObj by simp
  have items: "map_exn (normalize_item env) xs = Inr (map retimed_item xs)"
    if x: "field kv ''items'' = JArr xs" for xs
  proof (rule map_exn_all)
    fix i assume i: "i \<in> set xs"
    have "distinct_keys (field kv ''items'')"
      using assms(1) unfolding JObj by (rule distinct_keys_field)
    with x i have "distinct_keys i" by simp
    moreover have "item_ok i"
      using assms(2) x i by (simp add: body_ok_def JObj opt_get_obj list_all_iff)
    ultimately show "normalize_item env i = Inr (retimed_item i)"
      by (rule normalize_item_ok)
  qed
  show ?thesis
    unfolding normalize_def retimed_body_def JObj
    using array_field_step [OF d items]
    by (simp add: get_obj andThen_Inr del: get.simps set_field.simps on_field.simps)
qed (use assms in \<open>simp_all add: normalize_def retimed_body_def body_ok_def andThen_def\<close>)

subsection \<open>What the response normalizer changes\<close>

lemma sample_body_ok: "distinct_keys sample_body" "body_ok sample_body"
  by (simp_all add: sample_body_def body_ok_def item_ok_def section_ok_def move_ok_def
      optional_time_def opt_get_def)

lemma retimed_sample_body: "retimed_body sample_body = sample_body_normalized"
  by (simp add: sample_body_def sample_body_normalized_def retimed_body_def retimed_item_def
      retimed_section_def retimed_move_def map_entry_def opt_get_def addTimezone_def)

lemma empty_section_time_body_ok:
  "distinct_keys empty_section_time_body" "body_ok empty_section_time_body"
  by (simp_all add: empty_section_time_body_def body_ok_def item_ok_def section_ok_def
      move_ok_def optional_time_def opt_get_def)

lemma retimed_empty_section_time_body:
  "retimed_body empty_section_time_body = empty_section_time_body"
  by (simp add: empty_section_time_body_def retimed_body_def retimed_item_def
      retimed_section_def retimed_move_def map_entry_def opt_get_def)

text \<open>
  A \<open>summary.move\<close> object without \<open>from_time\<close> is outside the bodies the theorem
  below speaks of: the assignment of the source has no guard there, unlike the one for
  the sections, and the normalizer raises a TypeError.
\<close>

lemma move_without_times_raises:
  "normalize env move_without_times_body = Inl TypeError"
  by (simp add: move_without_times_body_def normalize_def normalize_item_def
      normalize_move_def andThen_def)

text \<open>
  C3, as the code has it. For every upstream body decoded from JSON (no object has a
  repeated key) in which the body, every item and every section are neither null nor
  undefined, every truthy \<open>summary.move\<close> is an object with string \<open>from_time\<close>
  and \<open>to_time\<close>, and every \<open>from_time\<close> and \<open>to_time\<close> of a section of type
  \<open>move\<close> is absent, falsy or a string, the normalizer returns the body changed only
  in these fields: in each item's \<open>summary.move\<close> they get \<open>+09:00\<close> appended unless
  they contain \<open>+\<close>, in each section of type \<open>move\<close> they get it appended unless
  they are empty or contain \<open>+\<close>. Every other field is unchanged and no field is
  added: changing a field keeps the keys of its object and the values of the other keys.
\<close>

theorem normalizer_changes_only_times:
  assumes "distinct_keys body" "body_ok body"
  shows "normalize env body = Inr (retimed_body body)
       \<and> (\<forall>k f kv. map fst (map_entry k f kv) = map fst kv)
       \<and> (\<forall>k f kv k'. k' \<noteq> k \<longrightarrow> map_of (map_entry k f kv) k' = map_of kv k')"
  using normalize_ok [OF assms] by (simp add: map_entry_keys map_of_map_entry)

theorem normalizer_changes_only_times_witness:
  "distinct_keys sample_body \<and> body_ok sample_body
   \<and> normalize (sample_env (\<lambda>rq. Inr JNull)) sample_body = Inr sample_body_normalized"
  using normalizer_changes_only_times [OF sample_body_ok, of "sample_env (\<lambda>rq. Inr JNull)"]
  by (simp add: sample_body_ok retimed_sample_body)

text \<open>
  C3 as stated fails on a section of type \<open>move\<close> whose \<open>from_time\<close> is the empty
  string: it contains no \<open>+\<close>, yet the guard of the source skips it and the body is
  returned unchanged.
\<close>

theorem empty_section_time_counterexample:
  "CHR ''+'' \<notin> set []
   \<and> normalize (sample_env (\<lambda>rq. Inr JNull)) empty_section_time_body
       = Inr (JObj [(''items'',
                JArr [JObj [(''sections'',
                        JArr [JObj [(''type'', JStr ''move''), (''from_time'', JStr [])]])]])])"
  using normalize_ok [OF empty_section_time_body_ok, of "sample_env (\<lambda>rq. Inr JNull)"]
  by (simp add: retimed_empty_section_time_body) (simp add: empty_section_time_body_def)

end
